theory Spec2Isabelle
  imports Complex_Main
begin

section \<open>Python values\<close>

text \<open>
  A Python \<open>str\<close> is a sequence of Unicode code points; it is modelled as a list of
  natural numbers, so that \<open>len\<close> is \<open>length\<close> and no text is excluded. String
  constants of the source are written \<open>lit ''...''\<close>.

  A Python \<open>float\<close> is modelled as a real number and float arithmetic as exact
  arithmetic: the rounding of binary floating point is outside the model. Python's
  \<open>int\<close> is \<open>int\<close>.
\<close>

type_synonym str = "nat list"

definition lit :: "string \<Rightarrow> str" where
  "lit s = map of_char s"

text \<open>
  The Unicode character tables that the source reaches through \<open>str.lower\<close>, the
  classes \<open>\w\<close> and \<open>\d\<close> of \<open>re\<close> and \<open>re.IGNORECASE\<close> are not part of the
  repository. They are a parameter of every function that consults them.
\<close>

record unicode =
  str_lower :: "str \<Rightarrow> str"
  is_word :: "nat \<Rightarrow> bool"
  is_decimal :: "nat \<Rightarrow> bool"
  ci_eq :: "nat \<Rightarrow> nat \<Rightarrow> bool"

text \<open>\<open>int(x)\<close> on a float truncates towards zero.\<close>

definition py_int :: "real \<Rightarrow> int" where
  "py_int x = (if 0 \<le> x then \<lfloor>x\<rfloor> else \<lceil>x\<rceil>)"

text \<open>
  \<open>xs[:n]\<close>: a non-negative bound takes a prefix, a negative one counts from the end.
\<close>

definition slice_to :: "int \<Rightarrow> 'a list \<Rightarrow> 'a list" where
  "slice_to n xs = (if 0 \<le> n then take (nat n) xs else take (length xs - nat (- n)) xs)"

text \<open>
  Values of the dynamically typed parts of the program: what \<open>json.loads\<close> returns
  and what the dictionaries of the source hold. A \<open>dict\<close> is an association list in
  insertion order; \<open>dict_set\<close> is \<open>d[k] = v\<close>, which keeps the position of a key
  that is already there. The three non-finite floats have constructors of their own.
\<close>

abbreviation ch :: "char \<Rightarrow> nat" where
  "ch \<equiv> of_char"

datatype pyval =
    PNone
  | PBool bool
  | PInt int
  | PFloat real
  | PNaN
  | PInf
  | PNegInf
  | PStr str
  | PList "pyval list"
  | PDict "(str \<times> pyval) list"

datatype exn =
    ValueError str
  | TypeError str
  | JSONDecodeError str
  | StopIteration nat
  | AttributeError str
  | Exception str

fun dict_get :: "(str \<times> pyval) list \<Rightarrow> str \<Rightarrow> pyval option" where
  "dict_get [] k = None"
| "dict_get ((k', v) # d) k = (if k' = k then Some v else dict_get d k)"

fun dict_set :: "(str \<times> pyval) list \<Rightarrow> str \<Rightarrow> pyval \<Rightarrow> (str \<times> pyval) list" where
  "dict_set [] k v = [(k, v)]"
| "dict_set ((k', v') # d) k v = (if k' = k then (k, v) # d else (k', v') # dict_set d k v)"

fun str_of_nat :: "nat \<Rightarrow> str" where
  "str_of_nat n = (if n < 10 then [48 + n] else str_of_nat (n div 10) @ [48 + n mod 10])"

declare str_of_nat.simps [simp del]

fun str_exn :: "exn \<Rightarrow> str" where
  "str_exn (ValueError m) = m"
| "str_exn (TypeError m) = m"
| "str_exn (JSONDecodeError m) = m"
| "str_exn (StopIteration n) = str_of_nat n"
| "str_exn (AttributeError m) = m"
| "str_exn (Exception m) = m"

definition type_name :: "pyval \<Rightarrow> str" where
  "type_name v =
    (case v of
       PNone \<Rightarrow> lit ''NoneType''
     | PBool b \<Rightarrow> lit ''bool''
     | PInt i \<Rightarrow> lit ''int''
     | PFloat x \<Rightarrow> lit ''float''
     | PNaN \<Rightarrow> lit ''float''
     | PInf \<Rightarrow> lit ''float''
     | PNegInf \<Rightarrow> lit ''float''
     | PStr s \<Rightarrow> lit ''str''
     | PList l \<Rightarrow> lit ''list''
     | PDict d \<Rightarrow> lit ''dict'')"

section \<open>Library functions: \<open>json.loads\<close>\<close>

text \<open>
  \<open>json.loads\<close> as CPython 3.11 runs it: \<open>JSONDecoder.decode\<close> over the scanner
  \<open>scan_once\<close> with the object and array loops and \<open>scanstring\<close> in strict mode.
  A position in the document is kept as the suffix that is still unread; \<open>pos_of\<close>
  gives the index that the error messages print. The functions return the index at
  which they stopped, and \<open>advance\<close> moves the suffix there.

  An integer literal becomes \<open>PInt\<close>, a literal with a fraction or an exponent becomes
  \<open>PFloat\<close> of its decimal value. The limits of the interpreter (recursion depth,
  number of digits of an integer literal) are not modelled.
\<close>

definition json_error :: "str \<Rightarrow> str \<Rightarrow> nat \<Rightarrow> exn" where
  "json_error msg doc pos =
    (let lineno = count_list (take pos doc) 10 + 1;
         colno = length (takeWhile (\<lambda>c. c \<noteq> 10) (rev (take pos doc))) + 1
     in JSONDecodeError (msg @ lit '': line '' @ str_of_nat lineno @ lit '' column '' @
          str_of_nat colno @ lit '' (char '' @ str_of_nat pos @ lit '')''))"

definition json_ws :: "nat \<Rightarrow> bool" where
  "json_ws c \<longleftrightarrow> c = 32 \<or> c = 9 \<or> c = 10 \<or> c = 13"

definition json_digit :: "nat \<Rightarrow> bool" where
  "json_digit c \<longleftrightarrow> 48 \<le> c \<and> c \<le> 57"

definition pos_of :: "str \<Rightarrow> str \<Rightarrow> nat" where
  "pos_of doc rest = length doc - length rest"

definition advance :: "str \<Rightarrow> str \<Rightarrow> nat \<Rightarrow> str" where
  "advance doc rest end = drop (end - pos_of doc rest) rest"

definition startswith :: "str \<Rightarrow> str \<Rightarrow> bool" where
  "startswith s p \<longleftrightarrow> take (length p) s = p"

definition hexval :: "nat \<Rightarrow> nat option" where
  "hexval c =
    (if 48 \<le> c \<and> c \<le> 57 then Some (c - 48)
     else if 97 \<le> c \<and> c \<le> 102 then Some (c - 87)
     else if 65 \<le> c \<and> c \<le> 70 then Some (c - 55)
     else None)"

fun hex_digits :: "nat \<Rightarrow> str \<Rightarrow> nat option" where
  "hex_digits acc [] = Some acc"
| "hex_digits acc (d # ds) =
    (case hexval d of None \<Rightarrow> None | Some v \<Rightarrow> hex_digits (16 * acc + v) ds)"

definition backslash :: "nat \<Rightarrow> nat option" where
  "backslash e =
    (if e = 34 \<or> e = 92 \<or> e = 47 then Some e
     else if e = ch CHR ''b'' then Some 8
     else if e = ch CHR ''f'' then Some 12
     else if e = ch CHR ''n'' then Some 10
     else if e = ch CHR ''r'' then Some 13
     else if e = ch CHR ''t'' then Some 9
     else None)"

function scanstring_loop :: "str \<Rightarrow> nat \<Rightarrow> str \<Rightarrow> str \<Rightarrow> exn + (str \<times> str)" where
  "scanstring_loop doc begin rest acc =
    (case rest of
       [] \<Rightarrow> Inl (json_error (lit ''Unterminated string starting at'') doc begin)
     | c # cs \<Rightarrow>
        if c = 34 then Inr (acc, cs)
        else if c = 92 then
          (case cs of
             [] \<Rightarrow> Inl (json_error (lit ''Unterminated string starting at'') doc begin)
           | e # es \<Rightarrow>
              if e \<noteq> ch CHR ''u'' then
                (case backslash e of
                   None \<Rightarrow> Inl (json_error (lit ''Invalid '' @ [92] @ lit ''escape'') doc (pos_of doc rest))
                 | Some b \<Rightarrow> scanstring_loop doc begin es (acc @ [b]))
              else if length es \<le> 4 then
                Inl (json_error (lit ''Invalid '' @ [92] @ lit ''uXXXX escape'') doc (pos_of doc cs))
              else
                (case hex_digits 0 (take 4 es) of
                   None \<Rightarrow> Inl (json_error (lit ''Invalid '' @ [92] @ lit ''uXXXX escape'') doc (pos_of doc cs))
                 | Some u \<Rightarrow>
                    let r = drop 4 es in
                    if 55296 \<le> u \<and> u \<le> 56319 \<and> 7 \<le> length r \<and> r ! 0 = 92 \<and> r ! 1 = ch CHR ''u'' then
                      (case hex_digits 0 (take 4 (drop 2 r)) of
                         None \<Rightarrow> Inl (json_error (lit ''Invalid '' @ [92] @ lit ''uXXXX escape'') doc (pos_of doc r + 1))
                       | Some u2 \<Rightarrow>
                          if 56320 \<le> u2 \<and> u2 \<le> 57343
                          then scanstring_loop doc begin (drop 6 r)
                                 (acc @ [65536 + ((u - 55296) * 1024 + (u2 - 56320))])
                          else scanstring_loop doc begin r (acc @ [u]))
                    else scanstring_loop doc begin r (acc @ [u])))
        else if c \<le> 31 then
          Inl (json_error (lit ''Invalid control character at'') doc (pos_of doc rest))
        else scanstring_loop doc begin cs (acc @ [c]))"
  by pat_completeness auto
termination
  by (relation "measure (\<lambda>(doc, begin, rest, acc). length rest)") auto

declare scanstring_loop.simps [simp del]

definition scanstring :: "str \<Rightarrow> nat \<Rightarrow> str \<Rightarrow> exn + (str \<times> nat)" where
  "scanstring doc begin rest =
    (case scanstring_loop doc begin rest [] of
       Inl e \<Rightarrow> Inl e
     | Inr (s, remaining) \<Rightarrow> Inr (s, pos_of doc remaining))"

definition digits_value :: "str \<Rightarrow> nat" where
  "digits_value ds = foldl (\<lambda>a d. 10 * a + (d - 48)) 0 ds"

definition match_number :: "str \<Rightarrow> str \<Rightarrow> (pyval \<times> nat) option" where
  "match_number doc rest =
    (let neg = (rest \<noteq> [] \<and> hd rest = ch CHR ''-'');
         r1 = (if neg then tl rest else rest)
     in if r1 = [] then None
        else if \<not> json_digit (hd r1) then None
        else
          let integer = (if hd r1 = 48 then [hd r1] else takeWhile json_digit r1);
              r2 = drop (length integer) r1;
              frac = (if 2 \<le> length r2 \<and> r2 ! 0 = ch CHR ''.'' \<and> json_digit (r2 ! 1)
                      then takeWhile json_digit (tl r2) else []);
              r3 = (if frac = [] then r2 else drop (1 + length frac) r2);
              has_e = (2 \<le> length r3 \<and> (r3 ! 0 = ch CHR ''e'' \<or> r3 ! 0 = ch CHR ''E''));
              r4 = tl r3;
              has_sign = (has_e \<and> 2 \<le> length r4 \<and> (r4 ! 0 = ch CHR ''-'' \<or> r4 ! 0 = ch CHR ''+''));
              r5 = (if has_sign then tl r4 else r4);
              exp_digits = (if has_e then takeWhile json_digit r5 else []);
              r6 = (if exp_digits = [] then r3 else drop (length exp_digits) r5);
              sign = (if neg then - 1 else 1 :: int)
          in if frac = [] \<and> exp_digits = []
             then Some (PInt (sign * int (digits_value integer)), pos_of doc r6)
             else
               let mantissa = real (digits_value integer) + real (digits_value frac) / 10 ^ length frac;
                   e = digits_value exp_digits;
                   scaled = (if has_sign \<and> r4 ! 0 = ch CHR ''-'' then mantissa / 10 ^ e else mantissa * 10 ^ e)
               in Some (PFloat (of_int sign * scaled), pos_of doc r6))"

function scan_once :: "str \<Rightarrow> str \<Rightarrow> exn + (pyval \<times> nat)"
  and parse_object_loop :: "str \<Rightarrow> str \<Rightarrow> (str \<times> pyval) list \<Rightarrow> exn + (pyval \<times> nat)"
  and parse_array_loop :: "str \<Rightarrow> str \<Rightarrow> pyval list \<Rightarrow> exn + (pyval \<times> nat)"
where
  "scan_once doc rest =
    (case rest of
       [] \<Rightarrow> Inl (StopIteration (pos_of doc rest))
     | c # cs \<Rightarrow>
        if c = 34 then
          (case scanstring doc (pos_of doc rest) cs of
             Inl e \<Rightarrow> Inl e
           | Inr (s, end) \<Rightarrow> Inr (PStr s, end))
        else if c = ch CHR ''{'' then
          (let r = dropWhile json_ws cs in
           case r of
             [] \<Rightarrow> parse_object_loop doc r []
           | d # r' \<Rightarrow> if d = ch CHR ''}'' then Inr (PDict [], pos_of doc r')
                       else parse_object_loop doc r [])
        else if c = ch CHR ''['' then
          (let r = dropWhile json_ws cs in
           case r of
             [] \<Rightarrow> parse_array_loop doc r []
           | d # r' \<Rightarrow> if d = ch CHR '']'' then Inr (PList [], pos_of doc r')
                       else parse_array_loop doc r [])
        else if startswith rest (lit ''null'') then Inr (PNone, pos_of doc rest + 4)
        else if startswith rest (lit ''true'') then Inr (PBool True, pos_of doc rest + 4)
        else if startswith rest (lit ''false'') then Inr (PBool False, pos_of doc rest + 5)
        else if startswith rest (lit ''NaN'') then Inr (PNaN, pos_of doc rest + 3)
        else if startswith rest (lit ''Infinity'') then Inr (PInf, pos_of doc rest + 8)
        else if startswith rest (lit ''-Infinity'') then Inr (PNegInf, pos_of doc rest + 9)
        else
          (case match_number doc rest of
             None \<Rightarrow> Inl (StopIteration (pos_of doc rest))
           | Some r \<Rightarrow> Inr r))"
| "parse_object_loop doc rest pairs =
    (case rest of
       [] \<Rightarrow> Inl (json_error (lit ''Expecting property name enclosed in double quotes'') doc
               (pos_of doc rest))
     | q # r1 \<Rightarrow>
        if q \<noteq> 34 then
          Inl (json_error (lit ''Expecting property name enclosed in double quotes'') doc
               (pos_of doc rest))
        else
          (case scanstring doc (pos_of doc rest) r1 of
             Inl e \<Rightarrow> Inl e
           | Inr (key, end1) \<Rightarrow>
              (let r2 = dropWhile json_ws (advance doc r1 end1) in
               case r2 of
                 [] \<Rightarrow> Inl (json_error (lit ''Expecting ':' delimiter'') doc (pos_of doc r2))
               | c # r2' \<Rightarrow>
                  if c \<noteq> ch CHR '':'' then
                    Inl (json_error (lit ''Expecting ':' delimiter'') doc (pos_of doc r2))
                  else
                    (let r3 = dropWhile json_ws r2' in
                     case scan_once doc r3 of
                       Inl e \<Rightarrow> Inl e
                     | Inr (val, end3) \<Rightarrow>
                        (let pairs' = dict_set pairs key val;
                             r4 = dropWhile json_ws (advance doc r3 end3)
                         in case r4 of
                              [] \<Rightarrow> Inl (json_error (lit ''Expecting ',' delimiter'') doc (pos_of doc r4))
                            | d # r4' \<Rightarrow>
                               if d = ch CHR ''}'' then Inr (PDict pairs', pos_of doc r4')
                               else if d \<noteq> ch CHR '','' then
                                 Inl (json_error (lit ''Expecting ',' delimiter'') doc (pos_of doc r4))
                               else parse_object_loop doc (dropWhile json_ws r4') pairs')))))"
| "parse_array_loop doc rest acc =
    (case scan_once doc rest of
       Inl e \<Rightarrow> Inl e
     | Inr (val, end) \<Rightarrow>
        (let r1 = dropWhile json_ws (advance doc rest end) in
         case r1 of
           [] \<Rightarrow> Inl (json_error (lit ''Expecting ',' delimiter'') doc (pos_of doc r1))
         | d # r1' \<Rightarrow>
            if d = ch CHR '']'' then Inr (PList (acc @ [val]), pos_of doc r1')
            else if d \<noteq> ch CHR '','' then
              Inl (json_error (lit ''Expecting ',' delimiter'') doc (pos_of doc r1))
            else parse_array_loop doc (dropWhile json_ws r1') (acc @ [val])))"
  by pat_completeness auto

termination
proof -
  have dw: "length (dropWhile P xs) \<le> length xs" for P and xs :: str
    by (rule length_dropWhile_le)
  have adv: "y # ys = dropWhile P (advance doc r e) \<Longrightarrow> Suc (length ys) \<le> length r"
    for P doc e y and ys r :: str
  proof -
    assume a: "y # ys = dropWhile P (advance doc r e)"
    have "length (dropWhile P (advance doc r e)) \<le> length r"
      by (rule order_trans[OF length_dropWhile_le]) (simp add: advance_def)
    with a[symmetric] show ?thesis by simp
  qed
  show ?thesis
    apply (relation "measure (\<lambda>x. case x of
        Inl (doc, rest) \<Rightarrow> 2 * length rest
      | Inr (Inl (doc, rest, pairs)) \<Rightarrow> 2 * length rest
      | Inr (Inr (doc, rest, acc)) \<Rightarrow> 2 * length rest + 1)")
         apply simp_all
    subgoal for rest x21 x22
      using dw[of json_ws x22] by linarith
    subgoal for rest x21 x22
      using dw[of json_ws x22] by linarith
    subgoal for doc rest x21 x22 b x y xa x21a x22a
      using dw[of json_ws x22a] adv[of 58 x22a json_ws doc x22 y] by linarith
    subgoal for doc rest pairs x21 x22 b x y xa x21a x22a xaa ba xab ya xac xb x21b x22b
      using dw[of json_ws x22a] dw[of json_ws x22b] adv[of 58 x22a json_ws doc x22 y]
        adv[of 44 x22b json_ws doc "dropWhile json_ws x22a" ya]
      by linarith
    subgoal for doc rest b x y xa x21 x22
      using dw[of json_ws x22] adv[of 44 x22 json_ws doc rest y] by linarith
    done
qed

declare scan_once.simps [simp del] parse_object_loop.simps [simp del] parse_array_loop.simps [simp del]

definition json_loads :: "str \<Rightarrow> exn + pyval" where
  "json_loads doc =
    (if startswith doc [65279] then
       Inl (json_error (lit ''Unexpected UTF-8 BOM (decode using utf-8-sig)'') doc 0)
     else
       case scan_once doc (dropWhile json_ws doc) of
         Inl (StopIteration p) \<Rightarrow> Inl (json_error (lit ''Expecting value'') doc p)
       | Inl e \<Rightarrow> Inl e
       | Inr (obj, end) \<Rightarrow>
          (let r = dropWhile json_ws (drop end doc) in
           if r = [] then Inr obj else Inl (json_error (lit ''Extra data'') doc (pos_of doc r))))"


section \<open>Library functions: the two searches of \<open>re\<close>\<close>

text \<open>
  \<open>isspace\<close> is the class \<open>\s\<close> of \<open>re\<close> on \<open>str\<close> patterns, which is
  \<open>str.isspace\<close>.

  \<open>search_fenced\<close> is \<open>re.search(r'```json\s*(\{.*?\})\s*```', text, re.DOTALL)\<close>
  followed by \<open>group(1)\<close>: at the leftmost opening fence from which a match exists,
  the group runs from the brace after the white space to the first closing brace that
  is followed by white space and a closing fence. \<open>search_braces\<close> is
  \<open>re.search(r'\{.*\}', text, re.DOTALL)\<close> followed by \<open>group(0)\<close>: greedy, from the
  first opening brace to the last closing brace of the text.
\<close>

definition isspace :: "nat \<Rightarrow> bool" where
  "isspace c \<longleftrightarrow>
    (9 \<le> c \<and> c \<le> 13) \<or> (28 \<le> c \<and> c \<le> 32) \<or> c = 133 \<or> c = 160 \<or> c = 5760 \<or>
    (8192 \<le> c \<and> c \<le> 8202) \<or> c = 8232 \<or> c = 8233 \<or> c = 8239 \<or> c = 8287 \<or> c = 12288"

fun lazy_group :: "str \<Rightarrow> str \<Rightarrow> str option" where
  "lazy_group acc [] = None"
| "lazy_group acc (c # cs) =
    (if c = ch CHR ''}'' \<and> startswith (dropWhile isspace cs) (lit ''```'')
     then Some (acc @ [c])
     else lazy_group (acc @ [c]) cs)"

definition match_fenced :: "str \<Rightarrow> str option" where
  "match_fenced s =
    (if startswith s (lit ''```json'') then
       (case dropWhile isspace (drop 7 s) of
          [] \<Rightarrow> None
        | c # cs \<Rightarrow> if c = ch CHR ''{'' then lazy_group [c] cs else None)
     else None)"

fun search_fenced :: "str \<Rightarrow> str option" where
  "search_fenced [] = None"
| "search_fenced (c # cs) =
    (case match_fenced (c # cs) of
       Some g \<Rightarrow> Some g
     | None \<Rightarrow> search_fenced cs)"

definition search_braces :: "str \<Rightarrow> str option" where
  "search_braces s =
    (case dropWhile (\<lambda>c. c \<noteq> ch CHR ''{'') s of
       [] \<Rightarrow> None
     | b # body \<Rightarrow>
        if ch CHR ''}'' \<in> set body
        then Some (b # rev (dropWhile (\<lambda>c. c \<noteq> ch CHR ''}'') (rev body)))
        else None)"

section \<open>ai\_evaluator.py\<close>

subsection \<open>Rubric generation\<close>

record criterion_template =
  t_name :: str
  t_weight :: real
  t_description :: str

record performance_level =
  l_name :: str
  l_points :: int
  l_description :: str

record criterion =
  c_name :: str
  c_description :: str
  c_max_points :: int
  c_weight :: real
  c_performance_levels :: "performance_level list"

record rubric =
  r_subject :: str
  r_question_type :: str
  r_total_points :: int
  r_criteria :: "criterion list"
  r_created_at :: str
  r_version :: str

definition essay_template :: "criterion_template list" where
  "essay_template =
    [\<lparr>t_name = lit ''Content Knowledge'', t_weight = 35 / 100,
      t_description = lit ''Accuracy and depth of subject matter understanding''\<rparr>,
     \<lparr>t_name = lit ''Organization & Structure'', t_weight = 25 / 100,
      t_description = lit ''Logical flow, clear introduction, body, and conclusion''\<rparr>,
     \<lparr>t_name = lit ''Critical Analysis'', t_weight = 25 / 100,
      t_description = lit ''Quality of reasoning, evidence use, and original insights''\<rparr>,
     \<lparr>t_name = lit ''Language & Mechanics'', t_weight = 15 / 100,
      t_description = lit ''Grammar, vocabulary, clarity of expression''\<rparr>]"

definition short_answer_template :: "criterion_template list" where
  "short_answer_template =
    [\<lparr>t_name = lit ''Accuracy'', t_weight = 4 / 10,
      t_description = lit ''Correctness of factual information''\<rparr>,
     \<lparr>t_name = lit ''Completeness'', t_weight = 3 / 10,
      t_description = lit ''Coverage of all required elements''\<rparr>,
     \<lparr>t_name = lit ''Clarity'', t_weight = 2 / 10,
      t_description = lit ''Clear and concise communication''\<rparr>,
     \<lparr>t_name = lit ''Examples/Evidence'', t_weight = 1 / 10,
      t_description = lit ''Use of relevant examples or supporting evidence''\<rparr>]"

definition analysis_template :: "criterion_template list" where
  "analysis_template =
    [\<lparr>t_name = lit ''Understanding'', t_weight = 3 / 10,
      t_description = lit ''Demonstrates clear understanding of the topic''\<rparr>,
     \<lparr>t_name = lit ''Analysis Quality'', t_weight = 35 / 100,
      t_description = lit ''Depth and sophistication of analytical thinking''\<rparr>,
     \<lparr>t_name = lit ''Evidence & Support'', t_weight = 25 / 100,
      t_description = lit ''Use of relevant evidence to support arguments''\<rparr>,
     \<lparr>t_name = lit ''Synthesis'', t_weight = 1 / 10,
      t_description = lit ''Ability to connect ideas and draw conclusions''\<rparr>]"

text \<open>
  \<open>criteria_templates.get(question_type.lower(), criteria_templates['short_answer'])\<close>,
  on the already lower-cased key.
\<close>

definition criteria_templates_get :: "str \<Rightarrow> criterion_template list" where
  "criteria_templates_get key =
    (if key = lit ''essay'' then essay_template
     else if key = lit ''short_answer'' then short_answer_template
     else if key = lit ''analysis'' then analysis_template
     else short_answer_template)"

definition make_criterion :: "int \<Rightarrow> criterion_template \<Rightarrow> criterion" where
  "make_criterion max_points criterion_template =
    (let criterion_points = py_int (of_int max_points * t_weight criterion_template) in
     \<lparr>c_name = t_name criterion_template,
      c_description = t_description criterion_template,
      c_max_points = criterion_points,
      c_weight = t_weight criterion_template,
      c_performance_levels =
        [\<lparr>l_name = lit ''Excellent'', l_points = criterion_points,
          l_description = lit ''Exceeds expectations''\<rparr>,
         \<lparr>l_name = lit ''Good'', l_points = py_int (of_int criterion_points * (8 / 10)),
          l_description = lit ''Meets expectations''\<rparr>,
         \<lparr>l_name = lit ''Satisfactory'', l_points = py_int (of_int criterion_points * (6 / 10)),
          l_description = lit ''Partially meets expectations''\<rparr>,
         \<lparr>l_name = lit ''Needs Improvement'', l_points = py_int (of_int criterion_points * (4 / 10)),
          l_description = lit ''Below expectations''\<rparr>,
         \<lparr>l_name = lit ''Unsatisfactory'', l_points = 0,
          l_description = lit ''Does not meet expectations''\<rparr>]\<rparr>)"

text \<open>
  \<open>create_custom_rubric\<close>. The last argument is the reading of the clock,
  \<open>datetime.now().isoformat()\<close>.
\<close>

definition create_custom_rubric ::
  "'u unicode_scheme \<Rightarrow> str \<Rightarrow> str \<Rightarrow> int \<Rightarrow> int \<Rightarrow> str \<Rightarrow> rubric" where
  "create_custom_rubric U subject question_type max_points criteria_count now =
    (let template = criteria_templates_get (str_lower U question_type);
         criteria = map (make_criterion max_points) (slice_to criteria_count template)
     in \<lparr>r_subject = subject,
         r_question_type = question_type,
         r_total_points = max_points,
         r_criteria = criteria,
         r_created_at = now,
         r_version = lit ''1.0''\<rparr>)"

subsection \<open>Response parser\<close>

text \<open>
  \<open>_parse_evaluation_response\<close>. Every exception raised in the \<open>try\<close> block is caught
  and turned into the dictionary \<open>parse_failure\<close>, so the function returns a
  dictionary on every text. \<open>find_json_str\<close> is the part of the block that selects
  \<open>json_str\<close>.
\<close>

definition find_json_str :: "str \<Rightarrow> exn + str" where
  "find_json_str response_text =
    (case search_fenced response_text of
       Some g \<Rightarrow> Inr g
     | None \<Rightarrow>
        (case search_braces response_text of
           Some g \<Rightarrow> Inr g
         | None \<Rightarrow> Inl (ValueError (lit ''No JSON found in response''))))"

definition setitem :: "pyval \<Rightarrow> str \<Rightarrow> pyval \<Rightarrow> exn + (str \<times> pyval) list" where
  "setitem obj k v =
    (case obj of
       PDict d \<Rightarrow> Inr (dict_set d k v)
     | PList l \<Rightarrow> Inl (TypeError (lit ''list indices must be integers or slices, not str''))
     | other \<Rightarrow>
        Inl (TypeError ([39] @ type_name obj @ [39] @
          lit '' object does not support item assignment'')))"

definition parse_failure :: "exn \<Rightarrow> str \<Rightarrow> (str \<times> pyval) list" where
  "parse_failure e response_text =
    [(lit ''success'', PBool False),
     (lit ''error'', PStr (lit ''Failed to parse response: '' @ str_exn e)),
     (lit ''raw_response'', PStr response_text),
     (lit ''chain_of_thought'', PDict [(lit ''parsing_error'', PStr (str_exn e))]),
     (lit ''total_score'', PInt 0),
     (lit ''max_possible_score'', PInt 100),
     (lit ''percentage'', PInt 0),
     (lit ''feedback'', PDict
        [(lit ''strengths'', PList []),
         (lit ''areas_for_improvement'',
            PList [PStr (lit ''Response parsing failed - manual review required'')]),
         (lit ''specific_suggestions'', PList [])])]"

definition parse_evaluation_response :: "str \<Rightarrow> (str \<times> pyval) list" where
  "parse_evaluation_response response_text =
    (case find_json_str response_text of
       Inl e \<Rightarrow> parse_failure e response_text
     | Inr json_str \<Rightarrow>
        (case json_loads json_str of
           Inl e \<Rightarrow> parse_failure e response_text
         | Inr evaluation \<Rightarrow>
            (case setitem evaluation (lit ''success'') (PBool True) of
               Inl e \<Rightarrow> parse_failure e response_text
             | Inr evaluation' \<Rightarrow>
                dict_set evaluation' (lit ''raw_response'') (PStr response_text))))"

subsection \<open>Backend router\<close>

text \<open>
  An SDK client is the function from what it is sent (model, \<open>max_tokens\<close>,
  \<open>temperature\<close>, prompt) to the text of the reply, \<open>message.content[0].text\<close> or
  \<open>response.choices[0].message.content\<close>, or to the exception that the call or the
  reading of the reply raises. A client that \<open>_initialize_clients\<close> did not create is
  \<open>None\<close>.

  \<open>create_evaluation_prompt\<close> formats a string and takes no decision; it is the
  parameter \<open>P\<close>, with the exception it may raise on a rubric that is not a
  dictionary. The question, the answer, the rubric and the context reach nothing but
  the prompt. \<open>now\<close> is the reading of the clock, \<open>datetime.now().isoformat()\<close>, when
  the result is built.
\<close>

type_synonym client = "str \<Rightarrow> int \<Rightarrow> real \<Rightarrow> str \<Rightarrow> exn + str"

type_synonym prompt_builder = "pyval \<Rightarrow> pyval \<Rightarrow> pyval \<Rightarrow> pyval \<Rightarrow> exn + str"

record ai_evaluator =
  anthropic_client :: "client option"
  openai_client :: "client option"
  claude_model :: str
  gpt_model :: str
  max_tokens :: int
  temperature :: real

text \<open>
  The \<open>try\<close> block that \<open>evaluate_answer_with_claude\<close> and
  \<open>evaluate_answer_with_gpt\<close> share, with its handler: an exception of the prompt
  builder or of the client becomes a dictionary with \<open>success\<close> false.
\<close>

definition evaluate_with ::
  "client \<Rightarrow> str \<Rightarrow> ai_evaluator \<Rightarrow> prompt_builder \<Rightarrow> str \<Rightarrow>
   pyval \<Rightarrow> pyval \<Rightarrow> pyval \<Rightarrow> pyval \<Rightarrow> (str \<times> pyval) list" where
  "evaluate_with client model E P now question student_answer rubric context =
    (case (case P question student_answer rubric context of
             Inl e \<Rightarrow> Inl e
           | Inr prompt \<Rightarrow> client model (max_tokens E) (temperature E) prompt) of
       Inl e \<Rightarrow>
         [(lit ''success'', PBool False),
          (lit ''error'', PStr (str_exn e)),
          (lit ''model_used'', PStr model),
          (lit ''timestamp'', PStr now)]
     | Inr response_text \<Rightarrow>
         dict_set
           (dict_set (parse_evaluation_response response_text) (lit ''model_used'') (PStr model))
           (lit ''timestamp'') (PStr now))"

definition evaluate_answer_with_claude ::
  "ai_evaluator \<Rightarrow> prompt_builder \<Rightarrow> str \<Rightarrow> pyval \<Rightarrow> pyval \<Rightarrow> pyval \<Rightarrow> pyval \<Rightarrow>
   exn + (str \<times> pyval) list" where
  "evaluate_answer_with_claude E P now question student_answer rubric context =
    (case anthropic_client E of
       None \<Rightarrow> Inl (ValueError (lit ''Anthropic client not initialized. Check API key.''))
     | Some client \<Rightarrow>
         Inr (evaluate_with client (claude_model E) E P now question student_answer rubric context))"

definition evaluate_answer_with_gpt ::
  "ai_evaluator \<Rightarrow> prompt_builder \<Rightarrow> str \<Rightarrow> pyval \<Rightarrow> pyval \<Rightarrow> pyval \<Rightarrow> pyval \<Rightarrow>
   exn + (str \<times> pyval) list" where
  "evaluate_answer_with_gpt E P now question student_answer rubric context =
    (case openai_client E of
       None \<Rightarrow> Inl (ValueError (lit ''OpenAI client not initialized. Check API key.''))
     | Some client \<Rightarrow>
         Inr (evaluate_with client (gpt_model E) E P now question student_answer rubric context))"

definition evaluate_answer ::
  "'u unicode_scheme \<Rightarrow> ai_evaluator \<Rightarrow> prompt_builder \<Rightarrow> str \<Rightarrow>
   pyval \<Rightarrow> pyval \<Rightarrow> pyval \<Rightarrow> pyval \<Rightarrow> str \<Rightarrow> exn + (str \<times> pyval) list" where
  "evaluate_answer U E P now question student_answer rubric context preferred_model =
    (if str_lower U preferred_model = lit ''claude'' \<and> anthropic_client E \<noteq> None then
       (case evaluate_answer_with_claude E P now question student_answer rubric context of
          Inr result \<Rightarrow> Inr result
        | Inl e \<Rightarrow>
            if openai_client E \<noteq> None
            then evaluate_answer_with_gpt E P now question student_answer rubric context
            else Inl e)
     else if openai_client E \<noteq> None then
       evaluate_answer_with_gpt E P now question student_answer rubric context
     else Inl (ValueError (lit ''No AI client available for evaluation'')))"

subsection \<open>Batch evaluation\<close>

text \<open>
  A request is a dictionary. \<open>evaluate_request\<close> is the coroutine that the loop of
  \<open>evaluate_batch\<close> creates for it; \<open>preferred_model.lower()\<close> is the first thing
  \<open>evaluate_answer\<close> runs, and raises \<open>AttributeError\<close> on a value that is not a
  string. \<open>asyncio.gather(*tasks, return_exceptions=True)\<close> returns, in the order of
  the tasks, what each returned or the exception it raised. The clients are functions,
  so a task has no effect that another could see; the event loop is not modelled.
  \<open>clock i\<close> is the reading of the clock while request \<open>i\<close> is evaluated and
  \<open>clock_done i\<close> the reading while its exception is converted.
\<close>

definition dict_get_default :: "(str \<times> pyval) list \<Rightarrow> str \<Rightarrow> pyval \<Rightarrow> pyval" where
  "dict_get_default d k fallback = (case dict_get d k of None \<Rightarrow> fallback | Some v \<Rightarrow> v)"

definition evaluate_request ::
  "'u unicode_scheme \<Rightarrow> ai_evaluator \<Rightarrow> prompt_builder \<Rightarrow> str \<Rightarrow> (str \<times> pyval) list \<Rightarrow>
   exn + (str \<times> pyval) list" where
  "evaluate_request U E P now request =
    (case dict_get_default request (lit ''preferred_model'') (PStr (lit ''claude'')) of
       PStr preferred_model \<Rightarrow>
         evaluate_answer U E P now
           (dict_get_default request (lit ''question'') (PStr []))
           (dict_get_default request (lit ''student_answer'') (PStr []))
           (dict_get_default request (lit ''rubric'') (PDict []))
           (dict_get_default request (lit ''context'') (PStr []))
           preferred_model
     | v \<Rightarrow>
         Inl (AttributeError ([39] @ type_name v @ [39] @ lit '' object has no attribute '' @
           [39] @ lit ''lower'' @ [39])))"

definition process_result :: "str \<Rightarrow> nat \<Rightarrow> exn + (str \<times> pyval) list \<Rightarrow> (str \<times> pyval) list" where
  "process_result now i result =
    (case result of
       Inl e \<Rightarrow>
         [(lit ''success'', PBool False),
          (lit ''error'', PStr (str_exn e)),
          (lit ''request_index'', PInt (int i)),
          (lit ''timestamp'', PStr now)]
     | Inr r \<Rightarrow> dict_set r (lit ''request_index'') (PInt (int i)))"

definition batch_evaluate_answers ::
  "'u unicode_scheme \<Rightarrow> ai_evaluator \<Rightarrow> prompt_builder \<Rightarrow> (nat \<Rightarrow> str) \<Rightarrow> (nat \<Rightarrow> str) \<Rightarrow>
   (str \<times> pyval) list list \<Rightarrow> (str \<times> pyval) list list" where
  "batch_evaluate_answers U E P clock clock_done evaluation_requests =
    (let results = map (\<lambda>(i, request). evaluate_request U E P (clock i) request)
           (zip [0..<length evaluation_requests] evaluation_requests)
     in map (\<lambda>(i, result). process_result (clock_done i) i result)
          (zip [0..<length results] results))"

text \<open>
  A table that is right on ASCII, where only the letters A to Z have a lower case, the
  word characters are the letters, the digits and the underscore, and the decimal
  digits are 0 to 9. It serves to run the functions on ASCII texts.
\<close>

definition ascii_lower :: "nat \<Rightarrow> nat" where
  "ascii_lower c = (if 65 \<le> c \<and> c \<le> 90 then c + 32 else c)"

definition ascii_tables :: unicode where
  "ascii_tables =
    \<lparr>str_lower = map ascii_lower,
     is_word = (\<lambda>c. (48 \<le> c \<and> c \<le> 57) \<or> (65 \<le> c \<and> c \<le> 90) \<or> (97 \<le> c \<and> c \<le> 122) \<or> c = 95),
     is_decimal = (\<lambda>c. 48 \<le> c \<and> c \<le> 57),
     ci_eq = (\<lambda>p c. ascii_lower p = ascii_lower c)\<rparr>"

section \<open>plagiarism\_detector.py\<close>

subsection \<open>Library functions: \<open>str.split\<close>, \<open>str.strip\<close>, \<open>str.join\<close>, \<open>re.findall\<close>, \<open>re.sub\<close>\<close>

text \<open>
  \<open>text.split()\<close> cuts at runs of white space and returns no empty word.
\<close>

fun split_from :: "str \<Rightarrow> str \<Rightarrow> str list" where
  "split_from word [] = (if word = [] then [] else [word])"
| "split_from word (c # cs) =
    (if isspace c then (if word = [] then split_from [] cs else word # split_from [] cs)
     else split_from (word @ [c]) cs)"

definition py_split :: "str \<Rightarrow> str list" where
  "py_split text = split_from [] text"

definition strip :: "str \<Rightarrow> str" where
  "strip text = rev (dropWhile isspace (rev (dropWhile isspace text)))"

fun join :: "str \<Rightarrow> str list \<Rightarrow> str" where
  "join sep [] = []"
| "join sep [w] = w"
| "join sep (w # ws) = w @ sep @ join sep ws"

text \<open>
  \<open>re.findall\<close> for a pattern that matches no empty string: \<open>m\<close> gives the length of
  the match that starts at the head of its argument, if there is one. The search goes
  on after a match, and one character further when there is none.
\<close>

fun findall :: "(str \<Rightarrow> nat option) \<Rightarrow> str \<Rightarrow> str list" where
  "findall m [] = []"
| "findall m (c # cs) =
    (case m (c # cs) of
       None \<Rightarrow> findall m cs
     | Some n \<Rightarrow> take n (c # cs) # findall m (drop (n - 1) cs))"

text \<open>\<open>re.sub(r'\s+', ' ', text)\<close>; the flag says that the last character was white space.\<close>

fun collapse_spaces :: "bool \<Rightarrow> str \<Rightarrow> str" where
  "collapse_spaces in_run [] = []"
| "collapse_spaces in_run (c # cs) =
    (if isspace c then (if in_run then collapse_spaces True cs else 32 # collapse_spaces True cs)
     else c # collapse_spaces False cs)"

text \<open>A run of \<open>n\<close> consecutive characters of a class somewhere in the string.\<close>

fun has_run :: "(nat \<Rightarrow> bool) \<Rightarrow> nat \<Rightarrow> str \<Rightarrow> bool" where
  "has_run P n [] = (n = 0)"
| "has_run P n (c # cs) =
    ((n \<le> length (c # cs) \<and> list_all P (take n (c # cs))) \<or> has_run P n cs)"

text \<open>
  The matchers of the patterns of the source. A bracketed pattern such as
  \<open>\([^)]*\d{4}[^)]*\)\<close> matches at an opening bracket when the text up to the next
  closing bracket has the digits; \<open>"[^"]*"\<close> matches from a quote to the next one;
  \<open>(?:according to|as stated by|cited in)\s+[^.]+\<close> matches a phrase, in any case,
  that is followed by a white space character and a character that is not a full
  stop, up to the next full stop.
\<close>

definition match_bracketed :: "nat \<Rightarrow> nat \<Rightarrow> (str \<Rightarrow> bool) \<Rightarrow> str \<Rightarrow> nat option" where
  "match_bracketed opening closing inside s =
    (case s of
       [] \<Rightarrow> None
     | c # cs \<Rightarrow>
        if c = opening then
          (let seg = takeWhile (\<lambda>x. x \<noteq> closing) cs in
           if length seg < length cs \<and> inside seg then Some (length seg + 2) else None)
        else None)"

definition match_paren_year :: "'u unicode_scheme \<Rightarrow> str \<Rightarrow> nat option" where
  "match_paren_year U = match_bracketed (ch CHR ''('') (ch CHR '')'') (has_run (is_decimal U) 4)"

definition match_square_number :: "'u unicode_scheme \<Rightarrow> str \<Rightarrow> nat option" where
  "match_square_number U = match_bracketed (ch CHR ''['') (ch CHR '']'') (has_run (is_decimal U) 1)"

definition match_quote :: "str \<Rightarrow> nat option" where
  "match_quote = match_bracketed 34 34 (\<lambda>seg. True)"

definition ci_prefix :: "'u unicode_scheme \<Rightarrow> str \<Rightarrow> str \<Rightarrow> bool" where
  "ci_prefix U pat s \<longleftrightarrow> length pat \<le> length s \<and> list_all2 (ci_eq U) pat (take (length pat) s)"

definition match_phrase :: "'u unicode_scheme \<Rightarrow> str \<Rightarrow> str \<Rightarrow> nat option" where
  "match_phrase U pat s =
    (if ci_prefix U pat s then
       (case drop (length pat) s of
          w # x # r \<Rightarrow>
            if isspace w \<and> x \<noteq> ch CHR ''.''
            then Some (length pat + 1 + length (takeWhile (\<lambda>c. c \<noteq> ch CHR ''.'') (x # r)))
            else None
        | _ \<Rightarrow> None)
     else None)"

definition match_attribution :: "'u unicode_scheme \<Rightarrow> str \<Rightarrow> nat option" where
  "match_attribution U s =
    (case match_phrase U (lit ''according to'') s of
       Some n \<Rightarrow> Some n
     | None \<Rightarrow>
        (case match_phrase U (lit ''as stated by'') s of
           Some n \<Rightarrow> Some n
         | None \<Rightarrow> match_phrase U (lit ''cited in'') s))"

definition match_spaces3 :: "str \<Rightarrow> nat option" where
  "match_spaces3 s =
    (let run = takeWhile isspace s in if 3 \<le> length run then Some (length run) else None)"

definition match_case_change :: "str \<Rightarrow> nat option" where
  "match_case_change s =
    (case s of
       a # b # r \<Rightarrow> if 97 \<le> a \<and> a \<le> 122 \<and> 65 \<le> b \<and> b \<le> 90 then Some 2 else None
     | _ \<Rightarrow> None)"

definition match_repeated :: "nat \<Rightarrow> str \<Rightarrow> nat option" where
  "match_repeated p s =
    (let run = takeWhile (\<lambda>c. c = p) s in if 2 \<le> length run then Some (length run) else None)"

definition match_punctuation :: "str \<Rightarrow> nat option" where
  "match_punctuation s =
    (case match_repeated (ch CHR ''.'') s of
       Some n \<Rightarrow> Some n
     | None \<Rightarrow>
        (case match_repeated (ch CHR ''!'') s of
           Some n \<Rightarrow> Some n
         | None \<Rightarrow> match_repeated (ch CHR ''?'') s))"

subsection \<open>Pattern heuristics\<close>

definition preprocess_text :: "'u unicode_scheme \<Rightarrow> str \<Rightarrow> str" where
  "preprocess_text U text =
    (let text1 = collapse_spaces False (strip (str_lower U text))
     in filter (\<lambda>c. is_word U c \<or> isspace c \<or> c \<in> set (lit ''.,;:!?-'')) text1)"

definition check_excessive_quotes :: "str \<Rightarrow> (str \<times> pyval) list" where
  "check_excessive_quotes text =
    (let quotes = findall match_quote text;
         total_quoted_chars = sum_list (map length quotes);
         quote_percentage = (if text \<noteq> [] then real total_quoted_chars / real (length text) else 0)
     in [(lit ''detected'', PBool (quote_percentage > 4 / 10)),
         (lit ''percentage'', if text \<noteq> [] then PFloat quote_percentage else PInt 0),
         (lit ''quote_count'', PInt (int (length quotes)))])"

text \<open>\<open>phrases[phrase] = phrases.get(phrase, 0) + 1\<close> on a dictionary of counts.\<close>

fun count_phrase :: "(str \<times> nat) list \<Rightarrow> str \<Rightarrow> (str \<times> nat) list" where
  "count_phrase [] phrase = [(phrase, 1)]"
| "count_phrase ((k, n) # d) phrase =
    (if k = phrase then (k, n + 1) # d else (k, n) # count_phrase d phrase)"

definition check_repetitive_phrases :: "str \<Rightarrow> (str \<times> pyval) list" where
  "check_repetitive_phrases text =
    (let words = py_split text;
         phrase_length = 5;
         phrases = foldl count_phrase []
           (map (\<lambda>i. join [32] (take phrase_length (drop i words)))
              [0..<length words + 1 - phrase_length]);
         repeated_phrases = filter (\<lambda>(k, v). v > 1) phrases;
         max_repetition = (if repeated_phrases \<noteq> [] then Max (set (map snd repeated_phrases)) else 0)
     in [(lit ''detected'', PBool (max_repetition > 2)),
         (lit ''max_repetitions'', PInt (int max_repetition)),
         (lit ''repeated_phrases_count'', PInt (int (length repeated_phrases)))])"

definition check_unusual_formatting :: "str \<Rightarrow> (str \<times> pyval) list" where
  "check_unusual_formatting text =
    (let inconsistent_spacing = (length (findall match_spaces3 text) > 0);
         mixed_case_patterns =
           (real (length (findall match_case_change text)) > real (length text) * (5 / 100));
         unusual_punctuation = (length (findall match_punctuation text) > 0);
         detected_count = (if inconsistent_spacing then 1 else 0) +
           (if mixed_case_patterns then 1 else 0) + (if unusual_punctuation then 1 else (0::int))
     in [(lit ''detected'', PBool (detected_count > 1)),
         (lit ''indicators'', PDict
            [(lit ''inconsistent_spacing'', PBool inconsistent_spacing),
             (lit ''mixed_case_patterns'', PBool mixed_case_patterns),
             (lit ''unusual_punctuation'', PBool unusual_punctuation)]),
         (lit ''indicator_count'', PInt detected_count)])"

text \<open>The list \<open>citations\<close> that the loop over the three patterns builds.\<close>

definition find_citations :: "'u unicode_scheme \<Rightarrow> str \<Rightarrow> str list" where
  "find_citations U text =
    findall (match_paren_year U) text @ findall (match_square_number U) text @
    findall (match_attribution U) text"

definition check_citation_patterns :: "'u unicode_scheme \<Rightarrow> str \<Rightarrow> (str \<times> pyval) list" where
  "check_citation_patterns U text =
    (let citations = find_citations U text;
         words = length (py_split text);
         citation_density =
           (if words > 0 then real (length citations) / (real words / 100) else 0)
     in [(lit ''detected'', PBool (citation_density > 5 \<or> citation_density < 5 / 10)),
         (lit ''citation_count'', PInt (int (length citations))),
         (lit ''citation_density'', if words > 0 then PFloat citation_density else PInt 0)])"

definition calculate_text_similarity :: "str \<Rightarrow> str \<Rightarrow> real" where
  "calculate_text_similarity text1 text2 =
    (let words1 = set (py_split text1);
         words2 = set (py_split text2)
     in if words1 = {} \<and> words2 = {} then 1
        else if words1 = {} \<or> words2 = {} then 0
        else real (card (words1 \<inter> words2)) / real (card (words1 \<union> words2)))"

text \<open>
  \<open>detect_pattern_based_plagiarism\<close>. On a text and reference texts that are strings no
  statement of the \<open>try\<close> block raises, so the handler, which would return
  \<open>success\<close> false and the score 0, is not part of the model. \<open>detected\<close> reads the
  flag of a pattern's dictionary.
\<close>

definition detected :: "(str \<times> pyval) list \<Rightarrow> bool" where
  "detected pattern \<longleftrightarrow> dict_get pattern (lit ''detected'') = Some (PBool True)"

definition detect_pattern_based_plagiarism ::
  "'u unicode_scheme \<Rightarrow> str \<Rightarrow> str \<Rightarrow> str list \<Rightarrow> (str \<times> pyval) list" where
  "detect_pattern_based_plagiarism U now text reference_texts =
    (let clean_text = preprocess_text U text;
         excessive_quotes = check_excessive_quotes text;
         repetitive_phrases = check_repetitive_phrases clean_text;
         unusual_formatting = check_unusual_formatting text;
         citation_inconsistencies = check_citation_patterns U text;
         suspicion_score =
           (if detected excessive_quotes then 3 / 10 else 0) +
           (if detected repetitive_phrases then 4 / 10 else 0) +
           (if detected unusual_formatting then 2 / 10 else 0) +
           (if detected citation_inconsistencies then 1 / 10 else (0::real));
         similarity_scores =
           map (\<lambda>ref_text. calculate_text_similarity clean_text (preprocess_text U ref_text))
             reference_texts;
         max_similarity = (if similarity_scores \<noteq> [] then Max (set similarity_scores) else 0)
     in [(lit ''success'', PBool True),
         (lit ''suspicion_score'', PFloat (min suspicion_score 1)),
         (lit ''max_similarity'', PFloat max_similarity),
         (lit ''patterns_detected'', PDict
            [(lit ''excessive_quotes'', PDict excessive_quotes),
             (lit ''repetitive_phrases'', PDict repetitive_phrases),
             (lit ''unusual_formatting'', PDict unusual_formatting),
             (lit ''citation_inconsistencies'', PDict citation_inconsistencies)]),
         (lit ''reference_similarities'', PList (map PFloat similarity_scores)),
         (lit ''timestamp'', PStr now)])"

subsection \<open>Aggregation\<close>

text \<open>
  The numbers that the comparisons of \<open>comprehensive_plagiarism_check\<close> accept: a
  \<open>bool\<close>, an \<open>int\<close> or a \<open>float\<close>; on any other value \<open>>\<close> against a number
  raises \<open>TypeError\<close>. A comparison with \<open>nan\<close> is false.
\<close>

datatype num = Fin real | PosInf | NegInf | NaN

fun num_of :: "pyval \<Rightarrow> num option" where
  "num_of (PBool b) = Some (Fin (if b then 1 else 0))"
| "num_of (PInt i) = Some (Fin (of_int i))"
| "num_of (PFloat x) = Some (Fin x)"
| "num_of PNaN = Some NaN"
| "num_of PInf = Some PosInf"
| "num_of PNegInf = Some NegInf"
| "num_of v = None"

fun num_gt :: "num \<Rightarrow> num \<Rightarrow> bool" where
  "num_gt (Fin x) (Fin y) = (x > y)"
| "num_gt (Fin x) NegInf = True"
| "num_gt PosInf (Fin y) = True"
| "num_gt PosInf NegInf = True"
| "num_gt a b = False"

fun num_times :: "num \<Rightarrow> real \<Rightarrow> num" where
  "num_times (Fin x) k = Fin (x * k)"
| "num_times a k = a"

definition gt_type_error :: "pyval \<Rightarrow> str \<Rightarrow> exn" where
  "gt_type_error v other =
    TypeError ([39, 62, 39] @ lit '' not supported between instances of '' @
      [39] @ type_name v @ [39] @ lit '' and '' @ [39] @ other @ [39])"

text \<open>The truth value of an object, as \<open>if\<close> takes it.\<close>

fun truthy :: "pyval \<Rightarrow> bool" where
  "truthy PNone = False"
| "truthy (PBool b) = b"
| "truthy (PInt i) = (i \<noteq> 0)"
| "truthy (PFloat x) = (x \<noteq> 0)"
| "truthy (PStr s) = (s \<noteq> [])"
| "truthy (PList l) = (l \<noteq> [])"
| "truthy (PDict d) = (d \<noteq> [])"
| "truthy v = True"

record plagiarism_result =
  is_plagiarized :: bool
  confidence_score :: real
  ai_generated_probability :: pyval
  sources_found :: pyval
  similarity_percentage :: pyval
  detection_method :: str
  timestamp :: str
  additional_info :: "(str \<times> pyval) list"

text \<open>
  The block \<open># Process results\<close>: what is read from the results of the three
  detectors. \<open>asyncio.gather(*tasks, return_exceptions=True)\<close> gives, for each of the
  two awaited detectors, the dictionary it returned or the exception it raised.
\<close>

definition ai_probability_of :: "exn + (str \<times> pyval) list \<Rightarrow> pyval" where
  "ai_probability_of ai_result =
    (case ai_result of
       Inr d \<Rightarrow>
         if truthy (dict_get_default d (lit ''success'') PNone)
         then dict_get_default d (lit ''ai_probability'') (PFloat 0)
         else PFloat 0
     | Inl e \<Rightarrow> PFloat 0)"

definition similarity_percentage_of :: "exn + (str \<times> pyval) list \<Rightarrow> pyval" where
  "similarity_percentage_of traditional_result =
    (case traditional_result of
       Inr d \<Rightarrow>
         if truthy (dict_get_default d (lit ''success'') PNone)
         then dict_get_default d (lit ''similarity_percentage'') (PFloat 0)
         else PFloat 0
     | Inl e \<Rightarrow> PFloat 0)"

definition sources_found_of :: "exn + (str \<times> pyval) list \<Rightarrow> pyval" where
  "sources_found_of traditional_result =
    (case traditional_result of
       Inr d \<Rightarrow>
         if truthy (dict_get_default d (lit ''success'') PNone)
         then dict_get_default d (lit ''sources'') (PList [])
         else PList []
     | Inl e \<Rightarrow> PList [])"

definition pattern_suspicion_of :: "(str \<times> pyval) list \<Rightarrow> pyval" where
  "pattern_suspicion_of pattern_result =
    (if truthy (dict_get_default pattern_result (lit ''success'') PNone)
     then dict_get_default pattern_result (lit ''suspicion_score'') (PFloat 0)
     else PFloat 0)"

definition detector_info :: "exn + (str \<times> pyval) list \<Rightarrow> pyval" where
  "detector_info result =
    (case result of
       Inr d \<Rightarrow> PDict d
     | Inl e \<Rightarrow> PDict [(lit ''error'', PStr (str_exn e))])"

text \<open>
  \<open>comprehensive_plagiarism_check\<close>, from the results of the two awaited detectors.
  \<open>now_pattern\<close> and \<open>now\<close> are the readings of the clock in the pattern detector and
  when the result is built. The first comparison of each score raises \<open>TypeError\<close>
  when the score is not a number.
\<close>

definition comprehensive_plagiarism_check ::
  "'u unicode_scheme \<Rightarrow> str \<Rightarrow> str \<Rightarrow>
   exn + (str \<times> pyval) list \<Rightarrow> exn + (str \<times> pyval) list \<Rightarrow> str \<Rightarrow> str list \<Rightarrow>
   exn + plagiarism_result" where
  "comprehensive_plagiarism_check U now_pattern now ai_result traditional_result text
     reference_texts =
    (let pattern_result = detect_pattern_based_plagiarism U now_pattern text reference_texts;
         ai_probability = ai_probability_of ai_result;
         similarity = similarity_percentage_of traditional_result;
         pattern_suspicion = pattern_suspicion_of pattern_result
     in case num_of ai_probability of
          None \<Rightarrow> Inl (gt_type_error ai_probability (lit ''float''))
        | Some a \<Rightarrow>
           (case num_of similarity of
              None \<Rightarrow> Inl (gt_type_error similarity (lit ''int''))
            | Some s \<Rightarrow>
               (case num_of pattern_suspicion of
                  None \<Rightarrow> Inl (gt_type_error pattern_suspicion (lit ''float''))
                | Some p \<Rightarrow>
                   (let confidence_factors =
                          [if num_gt a (Fin (7 / 10)) then 9 / 10
                           else if num_gt a (Fin (5 / 10)) then 7 / 10 else 3 / 10,
                           if num_gt s (Fin 30) then 9 / 10
                           else if num_gt s (Fin 15) then 7 / 10 else 3 / 10,
                           if num_gt p (Fin (6 / 10)) then 8 / 10
                           else if num_gt p (Fin (3 / 10)) then 6 / 10 else 4 / 10];
                        overall_confidence =
                          sum_list confidence_factors / real (length confidence_factors);
                        plagiarized =
                          (num_gt a (Fin (7 / 10)) \<or> num_gt s (Fin 25) \<or> num_gt p (Fin (6 / 10)));
                        method =
                          (if num_gt a s \<and> num_gt a (num_times p 100) then lit ''ai_detection''
                           else if num_gt s (num_times p 100) then lit ''traditional_plagiarism''
                           else lit ''pattern_based'')
                    in Inr
                         \<lparr>is_plagiarized = plagiarized,
                          confidence_score = overall_confidence,
                          ai_generated_probability = ai_probability,
                          sources_found = sources_found_of traditional_result,
                          similarity_percentage = similarity,
                          detection_method = method,
                          timestamp = now,
                          additional_info =
                            [(lit ''ai_detection_result'', detector_info ai_result),
                             (lit ''traditional_detection_result'', detector_info traditional_result),
                             (lit ''pattern_detection_result'', PDict pattern_result),
                             (lit ''text_length'', PInt (int (length text))),
                             (lit ''word_count'', PInt (int (length (py_split text))))]\<rparr>))))"

section \<open>Example inputs\<close>

text \<open>
  Replies of a model: a JSON object followed by prose that has braces of its own, a
  fenced JSON block, and prose with no brace.
\<close>

definition braced_prose_reply :: str where
  \<open>braced_prose_reply = lit ''{"total_score": 8} per rubric {v2}''\<close>

definition fenced_reply :: str where
  \<open>fenced_reply =
    lit ''Result: ```json'' @ [10] @ lit ''{"total_score": 8}'' @ [10] @ lit ''``` Done {ok}.''\<close>

definition prose_reply :: str where
  "prose_reply = lit ''I cannot grade this answer.''"

text \<open>
  Evaluators: one whose Anthropic client raises while its OpenAI client answers, one
  with the OpenAI client only, and one with no client. The prompt builder of the
  examples returns a fixed prompt.
\<close>

definition failing_primary :: ai_evaluator where
  "failing_primary =
    \<lparr>anthropic_client = Some (\<lambda>m t T p. Inl (Exception (lit ''Connection error.''))),
     openai_client = Some (\<lambda>m t T p. Inr fenced_reply),
     claude_model = lit ''claude-3-7-sonnet-20250219'',
     gpt_model = lit ''gpt-4-turbo-preview'',
     max_tokens = 4000,
     temperature = 3 / 10\<rparr>"

definition gpt_only :: ai_evaluator where
  "gpt_only = failing_primary\<lparr>anthropic_client := None\<rparr>"

definition no_clients :: ai_evaluator where
  "no_clients = failing_primary\<lparr>anthropic_client := None, openai_client := None\<rparr>"

definition plain_prompt :: prompt_builder where
  "plain_prompt question student_answer rubric context = Inr (lit ''Grade the answer.'')"

definition three_requests :: "(str \<times> pyval) list list" where
  "three_requests =
    [[(lit ''question'', PStr (lit ''Q1'')), (lit ''student_answer'', PStr (lit ''A1''))],
     [(lit ''question'', PStr (lit ''Q2'')), (lit ''preferred_model'', PInt 2)],
     [(lit ''question'', PStr (lit ''Q3'')), (lit ''preferred_model'', PStr (lit ''gpt''))]]"


definition uncited_text :: str where
  "uncited_text = lit ''hello world''"

definition ai_result_08 :: "exn + (str \<times> pyval) list" where
  "ai_result_08 = Inr [(lit ''success'', PBool True), (lit ''ai_probability'', PFloat (8 / 10))]"

definition no_credentials :: "exn + (str \<times> pyval) list" where
  "no_credentials =
    Inr [(lit ''success'', PBool False),
         (lit ''error'', PStr (lit ''CopyLeaks credentials not provided'')),
         (lit ''similarity_percentage'', PFloat 0),
         (lit ''sources'', PList [])]"

section \<open>The specification's wording\<close>


section \<open>Properties\<close>

lemma length_slice_to_nonneg:
  "0 \<le> n \<Longrightarrow> length (slice_to n xs) = min (nat n) (length xs)"
  by (simp add: slice_to_def)

lemma length_criteria_templates_get: "length (criteria_templates_get key) = 4"
  by (simp add: criteria_templates_get_def essay_template_def short_answer_template_def
      analysis_template_def)

lemma weight_criteria_templates_get:
  "t \<in> set (criteria_templates_get key) \<Longrightarrow> 0 \<le> t_weight t \<and> t_weight t \<le> 1"
  by (auto simp add: criteria_templates_get_def essay_template_def short_answer_template_def
      analysis_template_def split: if_splits)

lemma py_int_mono: "x \<le> y \<Longrightarrow> py_int x \<le> py_int y"
  unfolding py_int_def
  by (smt (verit, best) ceiling_mono floor_mono floor_le_ceiling ceiling_le_zero zero_le_floor)

lemma py_int_of_int: "py_int (of_int n) = n"
  by (simp add: py_int_def)

lemma py_int_nonneg: "0 \<le> x \<Longrightarrow> 0 \<le> py_int x"
  by (simp add: py_int_def)

subsection \<open>Dictionaries and string constants\<close>

lemma lit_eq_iff: "lit a = lit b \<longleftrightarrow> a = b"
  by (simp add: lit_def inj_on_def)

lemma dict_get_set: "dict_get (dict_set d k v) k' = (if k' = k then Some v else dict_get d k')"
  by (induction d) auto

lemmas json_simps = json_loads_def scan_once.simps parse_object_loop.simps parse_array_loop.simps
  scanstring_def scanstring_loop.simps match_number_def startswith_def json_ws_def json_digit_def
  pos_of_def advance_def json_error_def hexval_def backslash_def digits_value_def lit_def
  str_of_nat.simps Let_def

lemmas search_simps = find_json_str_def search_braces_def match_fenced_def isspace_def
  startswith_def lit_def

subsection \<open>Response parser\<close>

lemma search_braces_span:
  assumes "123 \<notin> set pre" "125 \<notin> set post"
  shows "search_braces (pre @ [123] @ body @ [125] @ post) = Some ([123] @ body @ [125])"
proof -
  have a: "dropWhile (\<lambda>c. c \<noteq> 123) (pre @ [123] @ body @ [125] @ post) =
      123 # (body @ [125] @ post)"
    using assms(1) by (auto simp add: dropWhile_append3)
  have b: "dropWhile (\<lambda>c. c \<noteq> 125) (rev post @ [125] @ rev body) = 125 # rev body"
    using assms(2) by (auto simp add: dropWhile_append3)
  show ?thesis
    unfolding search_braces_def using a b by simp
qed

lemma parse_object_loop_dict:
  "parse_object_loop doc rest pairs = Inr r \<Longrightarrow> \<exists>d. fst r = PDict d"
proof -
  have "scan_once doc rest = scan_once doc rest"
    and "\<forall>r. parse_object_loop doc rest pairs = Inr r \<longrightarrow> (\<exists>d. fst r = PDict d)"
    and "parse_array_loop doc rest acc = parse_array_loop doc rest acc"
  proof (induction doc rest and doc rest pairs and doc rest acc
      rule: scan_once_parse_object_loop_parse_array_loop.induct)
    case (1 doc rest)
    show ?case by simp
  next
    case (2 doc rest pairs)
    show ?case
      apply (subst parse_object_loop.simps)
      using 2
      apply (auto simp add: Let_def split: list.splits sum.splits if_splits prod.splits)
      done
  next
    case (3 doc rest acc)
    show ?case by simp
  qed
  then show "parse_object_loop doc rest pairs = Inr r \<Longrightarrow> \<exists>d. fst r = PDict d"
    by blast
qed

lemma scan_once_object:
  "scan_once doc (123 # cs) = Inr r \<Longrightarrow> \<exists>d. fst r = PDict d"
  by (subst (asm) scan_once.simps)
    (auto simp add: Let_def split: list.splits if_splits dest: parse_object_loop_dict)

lemma json_loads_object:
  assumes "json_loads (123 # cs) = Inr v"
  shows "\<exists>d. v = PDict d"
  using assms scan_once_object[of "123 # cs" cs]
  by (auto simp add: json_loads_def json_ws_def startswith_def Let_def
      split: sum.splits exn.splits if_splits prod.splits)

lemma lazy_group_prefix: "lazy_group acc cs = Some g \<Longrightarrow> \<exists>t. g = acc @ t"
  by (induction acc cs rule: lazy_group.induct) (auto split: if_splits)

lemma search_fenced_head: "search_fenced s = Some g \<Longrightarrow> \<exists>cs. g = 123 # cs"
proof (induction s)
  case Nil
  then show ?case by simp
next
  case (Cons c s)
  show ?case
  proof (cases "match_fenced (c # s)")
    case None
    with Cons show ?thesis by simp
  next
    case (Some g')
    with Cons.prems have g: "g' = g" by simp
    from Some obtain bs where "lazy_group [123] bs = Some g'"
      by (auto simp add: match_fenced_def split: if_splits list.splits)
    from lazy_group_prefix[OF this] show ?thesis using g by auto
  qed
qed

lemma find_json_str_head: "find_json_str s = Inr g \<Longrightarrow> \<exists>cs. g = 123 # cs"
  by (auto simp add: find_json_str_def search_braces_def split: option.splits list.splits if_splits
      dest: search_fenced_head dropWhile_eq_Cons_conv[THEN iffD1])

lemma parse_failure_fields:
  "dict_get (parse_failure e t) (lit ''success'') = Some (PBool False)"
  "dict_get (parse_failure e t) (lit ''error'') =
     Some (PStr (lit ''Failed to parse response: '' @ str_exn e))"
  "dict_get (parse_failure e t) (lit ''raw_response'') = Some (PStr t)"
  "dict_get (parse_failure e t) (lit ''total_score'') = Some (PInt 0)"
  "dict_get (parse_failure e t) (lit ''max_possible_score'') = Some (PInt 100)"
  "dict_get (parse_failure e t) (lit ''percentage'') = Some (PInt 0)"
  "dict_get (parse_failure e t) (lit ''feedback'') = Some (PDict
      [(lit ''strengths'', PList []),
       (lit ''areas_for_improvement'',
          PList [PStr (lit ''Response parsing failed - manual review required'')]),
       (lit ''specific_suggestions'', PList [])])"
  by (simp_all add: parse_failure_def lit_eq_iff)

text \<open>
  C3: when no JSON substring is found, or \<open>json.loads\<close> raises on the substring that
  was found, \<open>_parse_evaluation_response\<close> returns the fallback dictionary: \<open>success\<close>
  false, the error \<open>Failed to parse response:\<close> followed by the message of the
  exception, \<open>total_score\<close> 0, \<open>max_possible_score\<close> 100, \<open>percentage\<close> 0, the
  manual review note as the only area for improvement, and the input as
  \<open>raw_response\<close>. The function returns a dictionary, never an exception.
\<close>

theorem parse_evaluation_response_fallback:
  assumes "find_json_str response_text = Inl e \<or>
    (\<exists>json_str. find_json_str response_text = Inr json_str \<and> json_loads json_str = Inl e)"
  shows "let r = parse_evaluation_response response_text in
    r = parse_failure e response_text \<and>
    dict_get r (lit ''success'') = Some (PBool False) \<and>
    dict_get r (lit ''error'') = Some (PStr (lit ''Failed to parse response: '' @ str_exn e)) \<and>
    dict_get r (lit ''total_score'') = Some (PInt 0) \<and>
    dict_get r (lit ''max_possible_score'') = Some (PInt 100) \<and>
    dict_get r (lit ''percentage'') = Some (PInt 0) \<and>
    (\<exists>feedback. dict_get r (lit ''feedback'') = Some (PDict feedback) \<and>
       dict_get feedback (lit ''areas_for_improvement'') =
         Some (PList [PStr (lit ''Response parsing failed - manual review required'')])) \<and>
    dict_get r (lit ''raw_response'') = Some (PStr response_text)"
proof -
  have "parse_evaluation_response response_text = parse_failure e response_text"
    using assms by (auto simp add: parse_evaluation_response_def)
  then show ?thesis
    by (simp add: Let_def parse_failure_fields lit_eq_iff)
qed

lemma prose_find: "find_json_str prose_reply = Inl (ValueError (lit ''No JSON found in response''))"
  by (simp add: prose_reply_def search_simps)

theorem parse_evaluation_response_fallback_witness:
  "dict_get (parse_evaluation_response prose_reply) (lit ''success'') = Some (PBool False) \<and>
   dict_get (parse_evaluation_response prose_reply) (lit ''error'') =
     Some (PStr (lit ''Failed to parse response: No JSON found in response'')) \<and>
   dict_get (parse_evaluation_response prose_reply) (lit ''raw_response'') = Some (PStr prose_reply)"
proof -
  have msg: "lit ''Failed to parse response: No JSON found in response'' =
      lit ''Failed to parse response: '' @ str_exn (ValueError (lit ''No JSON found in response''))"
    by (simp add: lit_def)
  have "find_json_str prose_reply = Inl (ValueError (lit ''No JSON found in response'')) \<or>
      (\<exists>json_str. find_json_str prose_reply = Inr json_str \<and>
         json_loads json_str = Inl (ValueError (lit ''No JSON found in response'')))"
    by (simp add: prose_find)
  from parse_evaluation_response_fallback[OF this] show ?thesis
    unfolding Let_def msg by blast
qed

lemma braced_prose_first:
  "json_loads (take 18 braced_prose_reply) = Inr (PDict [(lit ''total_score'', PInt 8)])"
  by (simp add: braced_prose_reply_def json_simps)

lemma braced_prose_fenced: "search_fenced braced_prose_reply = None"
  by (simp add: braced_prose_reply_def search_simps)

lemma braced_prose_find: "find_json_str braced_prose_reply = Inr braced_prose_reply"
  by (simp add: braced_prose_reply_def search_simps)

lemma braced_prose_loads: "\<exists>e. json_loads braced_prose_reply = Inl e"
  by (simp add: braced_prose_reply_def json_simps)

text \<open>
  C4, as the specification words it: a text that contains a valid JSON object is parsed
  with \<open>success\<close> true, the bare object being the first brace-delimited substring.
  \<open>braced_prose_reply\<close> has no fence and starts with the object
  \<open>{"total_score": 8}\<close>, its first 18 characters; the greedy search returns the text up
  to its last closing brace, \<open>json.loads\<close> raises on it (extra data), and the result has
  \<open>success\<close> false.
\<close>

theorem parse_evaluation_response_first_object_counterexample:
  "search_fenced braced_prose_reply = None \<and>
   json_loads (take 18 braced_prose_reply) = Inr (PDict [(lit ''total_score'', PInt 8)]) \<and>
   find_json_str braced_prose_reply \<noteq> Inr (take 18 braced_prose_reply) \<and>
   dict_get (parse_evaluation_response braced_prose_reply) (lit ''success'') = Some (PBool False)"
proof -
  have "dict_get (parse_evaluation_response braced_prose_reply) (lit ''success'') =
      Some (PBool False)"
    using braced_prose_loads
    by (auto simp add: parse_evaluation_response_def braced_prose_find parse_failure_fields)
  moreover have "find_json_str braced_prose_reply \<noteq> Inr (take 18 braced_prose_reply)"
    by (simp add: braced_prose_find) (simp add: braced_prose_reply_def lit_def)
  ultimately show ?thesis
    by (simp add: braced_prose_first braced_prose_fenced)
qed

lemma find_json_str_cases:
  assumes "search_fenced response_text = Some json_str \<or>
    (search_fenced response_text = None \<and>
     response_text = pre @ [123] @ body @ [125] @ post \<and>
     123 \<notin> set pre \<and> 125 \<notin> set post \<and> json_str = [123] @ body @ [125])"
  shows "find_json_str response_text = Inr json_str"
  using assms search_braces_span[of pre post body]
  by (auto simp add: find_json_str_def)

text \<open>
  C4, amended: the fenced search comes first; without a fenced match the substring is
  the span from the first opening brace to the last closing brace of the text. When
  \<open>json.loads\<close> accepts the substring, its value is a dictionary and the result is that
  dictionary with \<open>success\<close> true and \<open>raw_response\<close> the input text.
\<close>

theorem parse_evaluation_response_success:
  assumes "search_fenced response_text = Some json_str \<or>
    (search_fenced response_text = None \<and>
     response_text = pre @ [123] @ body @ [125] @ post \<and>
     123 \<notin> set pre \<and> 125 \<notin> set post \<and> json_str = [123] @ body @ [125])"
    and "json_loads json_str = Inr evaluation"
  shows "\<exists>d. evaluation = PDict d \<and>
    parse_evaluation_response response_text =
      dict_set (dict_set d (lit ''success'') (PBool True)) (lit ''raw_response'')
        (PStr response_text) \<and>
    dict_get (parse_evaluation_response response_text) (lit ''success'') = Some (PBool True) \<and>
    dict_get (parse_evaluation_response response_text) (lit ''raw_response'') =
      Some (PStr response_text)"
proof -
  have f: "find_json_str response_text = Inr json_str"
    using assms(1) by (rule find_json_str_cases)
  from find_json_str_head[OF f] obtain cs where "json_str = 123 # cs" ..
  with assms(2) json_loads_object obtain d where d: "evaluation = PDict d"
    by blast
  have "parse_evaluation_response response_text =
      dict_set (dict_set d (lit ''success'') (PBool True)) (lit ''raw_response'')
        (PStr response_text)"
    by (simp add: parse_evaluation_response_def f assms(2) d setitem_def)
  then show ?thesis
    using d by (simp add: dict_get_set lit_eq_iff)
qed

lemma fenced_search: "search_fenced fenced_reply = Some (take 18 braced_prose_reply)"
  by (simp add: fenced_reply_def braced_prose_reply_def search_simps)

theorem parse_evaluation_response_success_witness:
  "parse_evaluation_response fenced_reply =
     [(lit ''total_score'', PInt 8), (lit ''success'', PBool True),
      (lit ''raw_response'', PStr fenced_reply)]"
  using parse_evaluation_response_success
    [of fenced_reply "take 18 braced_prose_reply" "[]" "[]" "[]"
      "PDict [(lit ''total_score'', PInt 8)]"]
  by (simp add: fenced_search braced_prose_first lit_eq_iff)

subsection \<open>Backend router\<close>

lemma parse_evaluation_response_flag:
  "dict_get (parse_evaluation_response t) (lit ''success'') = Some (PBool True) \<or>
   (dict_get (parse_evaluation_response t) (lit ''success'') = Some (PBool False) \<and>
    (\<exists>m. dict_get (parse_evaluation_response t) (lit ''error'') = Some (PStr m)))"
  by (auto simp add: parse_evaluation_response_def parse_failure_fields dict_get_set lit_eq_iff
      setitem_def split: sum.splits pyval.splits)

lemma evaluate_with_flag:
  "dict_get (evaluate_with client model E P now q a r c) (lit ''success'') = Some (PBool True) \<or>
   (dict_get (evaluate_with client model E P now q a r c) (lit ''success'') = Some (PBool False) \<and>
    (\<exists>m. dict_get (evaluate_with client model E P now q a r c) (lit ''error'') = Some (PStr m)))"
  using parse_evaluation_response_flag
  by (auto simp add: evaluate_with_def dict_get_set lit_eq_iff split: sum.splits)

lemma evaluate_with_model_used:
  "dict_get (evaluate_with client model E P now q a r c) (lit ''model_used'') = Some (PStr model)"
  by (auto simp add: evaluate_with_def dict_get_set lit_eq_iff split: sum.splits)

lemma evaluate_answer_primary_configured:
  assumes "str_lower U preferred_model = lit ''claude''" and "anthropic_client E = Some client"
  shows "evaluate_answer U E P now q a r c preferred_model =
    Inr (evaluate_with client (claude_model E) E P now q a r c)"
  using assms by (simp add: evaluate_answer_def evaluate_answer_with_claude_def)

text \<open>
  C1: with the preferred model \<open>claude\<close>, an Anthropic client whose call raises and an
  OpenAI client that answers, the claim has \<open>evaluate_answer\<close> return the result of the
  OpenAI backend. The handler inside \<open>evaluate_answer_with_claude\<close> catches the exception
  first and returns a failure dictionary, so the \<open>except\<close> branch of \<open>evaluate_answer\<close>
  that calls the OpenAI backend is never reached: the result names the Claude model and
  has \<open>success\<close> false.
\<close>

theorem evaluate_answer_keeps_primary_failure:
  "evaluate_answer ascii_tables failing_primary plain_prompt now q a r c (lit ''claude'') =
    Inr [(lit ''success'', PBool False),
         (lit ''error'', PStr (lit ''Connection error.'')),
         (lit ''model_used'', PStr (claude_model failing_primary)),
         (lit ''timestamp'', PStr now)] \<and>
   openai_client failing_primary \<noteq> None \<and>
   claude_model failing_primary \<noteq> gpt_model failing_primary"
proof -
  have "str_lower ascii_tables (lit ''claude'') = lit ''claude''"
    by (simp add: ascii_tables_def lit_def ascii_lower_def)
  then show ?thesis
    by (simp add: evaluate_answer_def evaluate_answer_with_claude_def evaluate_with_def
        failing_primary_def plain_prompt_def lit_eq_iff)
qed

text \<open>
  C2, as the specification words it: \<open>evaluate_answer\<close> never raises, also with no
  client. With no client it raises \<open>ValueError\<close>.
\<close>

theorem evaluate_answer_no_client_counterexample:
  "evaluate_answer ascii_tables no_clients plain_prompt (lit ''2026-01-01T00:00:00'')
     (PStr (lit ''Q'')) (PStr (lit ''A'')) (PDict []) (PStr []) (lit ''claude'') =
   Inl (ValueError (lit ''No AI client available for evaluation''))"
  by (simp add: evaluate_answer_def no_clients_def failing_primary_def)

text \<open>
  C2, amended: when the Anthropic client is there and the preferred model is
  \<open>claude\<close>, or the OpenAI client is there, \<open>evaluate_answer\<close> returns a dictionary
  whose \<open>success\<close> is true, or false together with an \<open>error\<close> string; in every other
  configuration it raises \<open>ValueError\<close> with the message that no client is available.
\<close>

theorem evaluate_answer_result_or_no_client:
  "if (str_lower U preferred_model = lit ''claude'' \<and> anthropic_client E \<noteq> None) \<or>
      openai_client E \<noteq> None
   then \<exists>result.
     evaluate_answer U E P now question student_answer rubric context preferred_model =
       Inr result \<and>
     (dict_get result (lit ''success'') = Some (PBool True) \<or>
      (dict_get result (lit ''success'') = Some (PBool False) \<and>
       (\<exists>m. dict_get result (lit ''error'') = Some (PStr m))))
   else evaluate_answer U E P now question student_answer rubric context preferred_model =
     Inl (ValueError (lit ''No AI client available for evaluation''))"
  using evaluate_with_flag
  by (auto simp add: evaluate_answer_def evaluate_answer_with_claude_def
      evaluate_answer_with_gpt_def)

lemma fenced_parse:
  "parse_evaluation_response fenced_reply =
     [(lit ''total_score'', PInt 8), (lit ''success'', PBool True),
      (lit ''raw_response'', PStr fenced_reply)]"
  by (simp add: parse_evaluation_response_def find_json_str_def fenced_search braced_prose_first
      setitem_def lit_eq_iff)

lemma gpt_only_result:
  "evaluate_answer U gpt_only plain_prompt now q a r c preferred_model =
    Inr [(lit ''total_score'', PInt 8), (lit ''success'', PBool True),
         (lit ''raw_response'', PStr fenced_reply),
         (lit ''model_used'', PStr (lit ''gpt-4-turbo-preview'')),
         (lit ''timestamp'', PStr now)]"
  by (simp add: evaluate_answer_def evaluate_answer_with_gpt_def evaluate_with_def
      gpt_only_def failing_primary_def plain_prompt_def fenced_parse lit_eq_iff)

theorem evaluate_answer_result_or_no_client_witness:
  "dict_get (projr (evaluate_answer ascii_tables gpt_only plain_prompt (lit ''2026-01-01T00:00:00'')
     (PStr (lit ''Q'')) (PStr (lit ''A'')) (PDict []) (PStr []) (lit ''claude'')))
     (lit ''success'') = Some (PBool True) \<and>
   evaluate_answer ascii_tables no_clients plain_prompt (lit ''2026-01-01T00:00:00'')
     (PStr (lit ''Q'')) (PStr (lit ''A'')) (PDict []) (PStr []) (lit ''gpt'') =
   Inl (ValueError (lit ''No AI client available for evaluation''))"
proof -
  have "openai_client no_clients = None" "anthropic_client no_clients = None"
    by (simp_all add: no_clients_def failing_primary_def)
  with evaluate_answer_result_or_no_client [of ascii_tables "lit ''gpt''" no_clients plain_prompt
      "lit ''2026-01-01T00:00:00''" "PStr (lit ''Q'')" "PStr (lit ''A'')" "PDict []" "PStr []"]
  have "evaluate_answer ascii_tables no_clients plain_prompt (lit ''2026-01-01T00:00:00'')
     (PStr (lit ''Q'')) (PStr (lit ''A'')) (PDict []) (PStr []) (lit ''gpt'') =
   Inl (ValueError (lit ''No AI client available for evaluation''))"
    by simp
  then show ?thesis
    by (simp add: gpt_only_result lit_eq_iff)
qed

subsection \<open>Batch evaluation\<close>

lemma process_result_index:
  "dict_get (process_result now i res) (lit ''request_index'') = Some (PInt (int i))"
  by (auto simp add: process_result_def dict_get_set lit_eq_iff split: sum.splits)

lemma batch_nth:
  assumes "i < length reqs"
  shows "batch_evaluate_answers U E P clock clock_done reqs ! i =
    process_result (clock_done i) i (evaluate_request U E P (clock i) (reqs ! i))"
  using assms by (simp add: batch_evaluate_answers_def Let_def)

text \<open>
  C8: the batch returns one result for each request, in the order of the requests; the
  i-th carries \<open>request_index\<close> i; an exception raised for a request becomes a
  dictionary with \<open>success\<close> false and the message of the exception; and the i-th
  result is the same in every batch of that length that has the same i-th request.
\<close>

theorem batch_evaluate_answers_isolated:
  "length (batch_evaluate_answers U E P clock clock_done reqs) = length reqs \<and>
   (\<forall>i < length reqs.
      let out = batch_evaluate_answers U E P clock clock_done reqs ! i;
          res = evaluate_request U E P (clock i) (reqs ! i)
      in dict_get out (lit ''request_index'') = Some (PInt (int i)) \<and>
         (case res of
            Inl e \<Rightarrow>
              out = [(lit ''success'', PBool False), (lit ''error'', PStr (str_exn e)),
                     (lit ''request_index'', PInt (int i)), (lit ''timestamp'', PStr (clock_done i))]
          | Inr r \<Rightarrow> out = dict_set r (lit ''request_index'') (PInt (int i))) \<and>
         (\<forall>reqs'. length reqs' = length reqs \<and> reqs' ! i = reqs ! i \<longrightarrow>
            batch_evaluate_answers U E P clock clock_done reqs' ! i = out))"
  by (auto simp add: batch_nth Let_def process_result_index)
    (auto simp add: batch_evaluate_answers_def process_result_def split: sum.splits)

lemma three_requests_results:
  "evaluate_request U gpt_only plain_prompt now (three_requests ! 0) =
     Inr [(lit ''total_score'', PInt 8), (lit ''success'', PBool True),
          (lit ''raw_response'', PStr fenced_reply),
          (lit ''model_used'', PStr (lit ''gpt-4-turbo-preview'')),
          (lit ''timestamp'', PStr now)]"
  "evaluate_request U gpt_only plain_prompt now (three_requests ! 1) =
     Inl (AttributeError ([39] @ lit ''int'' @ [39] @ lit '' object has no attribute '' @
           [39] @ lit ''lower'' @ [39]))"
  "evaluate_request U gpt_only plain_prompt now (three_requests ! 2) =
     Inr [(lit ''total_score'', PInt 8), (lit ''success'', PBool True),
          (lit ''raw_response'', PStr fenced_reply),
          (lit ''model_used'', PStr (lit ''gpt-4-turbo-preview'')),
          (lit ''timestamp'', PStr now)]"
  by (simp_all add: evaluate_request_def three_requests_def dict_get_default_def lit_eq_iff
      gpt_only_result type_name_def)

theorem batch_evaluate_answers_isolated_witness:
  "map (\<lambda>out. (dict_get out (lit ''request_index''), dict_get out (lit ''success'')))
     (batch_evaluate_answers ascii_tables gpt_only plain_prompt
        (\<lambda>i. lit ''2026-01-01T00:00:00'') (\<lambda>i. lit ''2026-01-01T00:00:01'') three_requests) =
   [(Some (PInt 0), Some (PBool True)), (Some (PInt 1), Some (PBool False)),
    (Some (PInt 2), Some (PBool True))]"
proof -
  let ?b = "batch_evaluate_answers ascii_tables gpt_only plain_prompt
        (\<lambda>i. lit ''2026-01-01T00:00:00'') (\<lambda>i. lit ''2026-01-01T00:00:01'') three_requests"
  let ?res = "\<lambda>i. evaluate_request ascii_tables gpt_only plain_prompt
        (lit ''2026-01-01T00:00:00'') (three_requests ! i)"
  have n: "length three_requests = 3"
    by (simp add: three_requests_def)
  note t = batch_evaluate_answers_isolated [of ascii_tables gpt_only plain_prompt
        "\<lambda>i. lit ''2026-01-01T00:00:00''" "\<lambda>i. lit ''2026-01-01T00:00:01''" three_requests]
  from t have len: "length ?b = 3"
    unfolding n by (rule conjunct1)
  from t have q: "i < 3 \<Longrightarrow>
      dict_get (?b ! i) (lit ''request_index'') = Some (PInt (int i)) \<and>
      (case ?res i of
         Inl e \<Rightarrow> ?b ! i = [(lit ''success'', PBool False), (lit ''error'', PStr (str_exn e)),
                     (lit ''request_index'', PInt (int i)),
                     (lit ''timestamp'', PStr (lit ''2026-01-01T00:00:01''))]
       | Inr r \<Rightarrow> ?b ! i = dict_set r (lit ''request_index'') (PInt (int i)))" for i
    unfolding n Let_def by blast
  have r0: "dict_get (?b ! 0) (lit ''request_index'') = Some (PInt 0)"
      "dict_get (?b ! 0) (lit ''success'') = Some (PBool True)"
    using q[of 0] three_requests_results [of ascii_tables "lit ''2026-01-01T00:00:00''"]
    by (simp_all add: lit_eq_iff dict_get_set)
  have r1: "dict_get (?b ! 1) (lit ''request_index'') = Some (PInt 1)"
      "dict_get (?b ! 1) (lit ''success'') = Some (PBool False)"
    using q[of 1] three_requests_results [of ascii_tables "lit ''2026-01-01T00:00:00''"]
    by (simp_all add: lit_eq_iff dict_get_set)
  have r2: "dict_get (?b ! 2) (lit ''request_index'') = Some (PInt 2)"
      "dict_get (?b ! 2) (lit ''success'') = Some (PBool True)"
    using q[of 2] three_requests_results [of ascii_tables "lit ''2026-01-01T00:00:00''"]
    by (simp_all add: lit_eq_iff dict_get_set)
  from len obtain x y z where xyz: "?b = [x, y, z]"
    by (auto simp add: length_Suc_conv numeral_3_eq_3)
  show ?thesis
    using r0 r1 r2 unfolding xyz by simp
qed

subsection \<open>Rubric generation\<close>

lemma make_criterion_levels:
  "map l_points (c_performance_levels (make_criterion m t)) =
    (let p = py_int (of_int m * t_weight t) in
      [p, py_int (of_int p * (8 / 10)), py_int (of_int p * (6 / 10)),
       py_int (of_int p * (4 / 10)), 0])"
  by (simp add: make_criterion_def Let_def)

lemma py_int_scale_le:
  assumes "0 \<le> p" "0 \<le> w" "w \<le> 1"
  shows "py_int (of_int p * w) \<le> p"
proof -
  have "of_int p * w \<le> (of_int p :: real)"
    using assms by (simp add: mult_left_le)
  from py_int_mono[OF this] show ?thesis
    by (simp add: py_int_of_int)
qed

lemma py_int_scale_nonneg:
  assumes "0 \<le> p" "0 \<le> w"
  shows "0 \<le> py_int (of_int p * w)"
  using assms by (simp add: py_int_nonneg)

lemma py_int_scale_mono:
  assumes "0 \<le> p" "v \<le> w"
  shows "py_int (of_int p * v) \<le> py_int (of_int p * w)"
  using assms by (intro py_int_mono) (simp add: mult_left_mono)

lemma make_criterion_bounds:
  assumes "0 \<le> m" "0 \<le> t_weight t" "t_weight t \<le> 1"
  shows "c_max_points (make_criterion m t) \<le> m"
    and "length (c_performance_levels (make_criterion m t)) = 5"
    and "sorted_wrt (\<ge>) (map l_points (c_performance_levels (make_criterion m t)))"
proof -
  let ?p = "py_int (of_int m * t_weight t)"
  have p0: "0 \<le> ?p"
    using assms(1,2) by (rule py_int_scale_nonneg)
  show "c_max_points (make_criterion m t) \<le> m"
    using assms by (simp add: make_criterion_def Let_def py_int_scale_le)
  show "length (c_performance_levels (make_criterion m t)) = 5"
    by (simp add: make_criterion_def Let_def)
  have a: "py_int (of_int ?p * (8 / 10)) \<le> ?p"
    by (rule py_int_scale_le[OF p0]) simp_all
  have b: "py_int (of_int ?p * (6 / 10)) \<le> py_int (of_int ?p * (8 / 10))"
    by (rule py_int_scale_mono[OF p0]) simp
  have c: "py_int (of_int ?p * (4 / 10)) \<le> py_int (of_int ?p * (6 / 10))"
    by (rule py_int_scale_mono[OF p0]) simp
  have d: "0 \<le> py_int (of_int ?p * (4 / 10))"
    by (rule py_int_scale_nonneg[OF p0]) simp
  show "sorted_wrt (\<ge>) (map l_points (c_performance_levels (make_criterion m t)))"
    unfolding make_criterion_levels Let_def using a b c d by simp
qed





text \<open>
  C6: for non-negative \<open>max_points\<close> and \<open>criteria_count\<close> the rubric has
  \<open>criteria_count\<close> criteria, or as many as the template has when that is fewer; no
  criterion has more than \<open>max_points\<close> points; each has five performance levels whose
  points do not increase from the first to the last.
\<close>

theorem create_custom_rubric_shape:
  assumes "0 \<le> max_points" and "0 \<le> criteria_count"
  shows "let template = criteria_templates_get (str_lower U question_type);
             criteria = r_criteria
               (create_custom_rubric U subject question_type max_points criteria_count now)
         in length template = 4 \<and>
            length criteria = min (nat criteria_count) (length template) \<and>
            (\<forall>c \<in> set criteria. c_max_points c \<le> max_points \<and>
               length (c_performance_levels c) = 5 \<and>
               sorted_wrt (\<ge>) (map l_points (c_performance_levels c)))"
proof -
  let ?tpl = "criteria_templates_get (str_lower U question_type)"
  have sub: "set (slice_to criteria_count ?tpl) \<subseteq> set ?tpl"
    using assms(2) by (auto simp add: slice_to_def dest: in_set_takeD)
  show ?thesis
    unfolding Let_def create_custom_rubric_def
    using assms sub
    by (auto simp add: length_slice_to_nonneg make_criterion_bounds length_criteria_templates_get
        dest!: subsetD[OF sub] weight_criteria_templates_get)
qed

theorem create_custom_rubric_shape_witness:
  "length (r_criteria (create_custom_rubric ascii_tables (lit ''Biology'') (lit ''analysis'')
      100 3 (lit ''2026-01-01T00:00:00''))) = 3 \<and>
   list_all (\<lambda>c. c_max_points c \<le> 100 \<and> length (c_performance_levels c) = 5 \<and>
      sorted_wrt (\<ge>) (map l_points (c_performance_levels c)))
     (r_criteria (create_custom_rubric ascii_tables (lit ''Biology'') (lit ''analysis'')
      100 3 (lit ''2026-01-01T00:00:00'')))"
  using create_custom_rubric_shape [of 100 3 ascii_tables "lit ''analysis''" "lit ''Biology''"
      "lit ''2026-01-01T00:00:00''"]
  by (simp add: Let_def list_all_iff)

text \<open>
  The slice \<open>template[:criteria_count]\<close> counts a negative bound from the end of the
  template: with \<open>criteria_count = -1\<close> the rubric has three criteria.
\<close>

lemma create_custom_rubric_negative_count:
  "length (r_criteria (create_custom_rubric U subject question_type max_points (- 1) now)) = 3"
  by (simp add: create_custom_rubric_def slice_to_def length_criteria_templates_get)

subsection \<open>Pattern heuristics of the plagiarism detector\<close>

lemmas pattern_simps = detect_pattern_based_plagiarism_def check_excessive_quotes_def
  check_repetitive_phrases_def check_unusual_formatting_def check_citation_patterns_def
  find_citations_def preprocess_text_def py_split_def strip_def detected_def
  match_bracketed_def match_paren_year_def match_square_number_def match_quote_def
  match_phrase_def match_attribution_def ci_prefix_def match_spaces3_def match_case_change_def
  match_repeated_def match_punctuation_def isspace_def ascii_tables_def ascii_lower_def

lemma check_citation_patterns_uncited:
  assumes "py_split text \<noteq> []" and "find_citations U text = []"
  shows "dict_get (check_citation_patterns U text) (lit ''detected'') = Some (PBool True)"
  using assms by (simp add: check_citation_patterns_def Let_def)

lemma suspicion_score_value:
  "dict_get (detect_pattern_based_plagiarism U now text reference_texts) (lit ''suspicion_score'') =
    Some (PFloat (min
      ((if detected (check_excessive_quotes text) then 3 / 10 else 0) +
       (if detected (check_repetitive_phrases (preprocess_text U text)) then 4 / 10 else 0) +
       (if detected (check_unusual_formatting text) then 2 / 10 else 0) +
       (if detected (check_citation_patterns U text) then 1 / 10 else 0)) 1))"
  by (simp add: detect_pattern_based_plagiarism_def Let_def lit_eq_iff)

text \<open>
  C9: a text with at least one word and no match of the three citation patterns has
  citation density 0, below the lower bound 0.5, so \<open>_check_citation_patterns\<close> flags
  it, and \<open>detect_pattern_based_plagiarism\<close> gives it a suspicion score of at least 0.1;
  the score is 0.1 when no other flag is raised.
\<close>

theorem uncited_text_is_suspicious:
  assumes "py_split text \<noteq> []" and "find_citations U text = []"
  shows "dict_get (check_citation_patterns U text) (lit ''detected'') = Some (PBool True) \<and>
    (\<exists>score.
       dict_get (detect_pattern_based_plagiarism U now text reference_texts)
         (lit ''suspicion_score'') = Some (PFloat score) \<and>
       1 / 10 \<le> score \<and>
       (\<not> detected (check_excessive_quotes text) \<and>
        \<not> detected (check_repetitive_phrases (preprocess_text U text)) \<and>
        \<not> detected (check_unusual_formatting text) \<longrightarrow> score = 1 / 10))"
proof -
  have c: "dict_get (check_citation_patterns U text) (lit ''detected'') = Some (PBool True)"
    using assms by (rule check_citation_patterns_uncited)
  then have d: "detected (check_citation_patterns U text)"
    by (simp add: detected_def)
  show ?thesis
    using c d by (simp add: suspicion_score_value)
qed

lemma uncited_text_words: "py_split uncited_text = [lit ''hello'', lit ''world'']"
  by (simp add: uncited_text_def py_split_def isspace_def lit_def)

lemma uncited_text_citations: "find_citations ascii_tables uncited_text = []"
  by (simp add: uncited_text_def pattern_simps lit_def)

lemma uncited_text_flags:
  "\<not> detected (check_excessive_quotes uncited_text)"
  "\<not> detected (check_repetitive_phrases (preprocess_text ascii_tables uncited_text))"
  "\<not> detected (check_unusual_formatting uncited_text)"
  by (simp_all add: uncited_text_def pattern_simps lit_def Let_def)

theorem uncited_text_is_suspicious_witness:
  "dict_get (check_citation_patterns ascii_tables uncited_text) (lit ''detected'') =
     Some (PBool True) \<and>
   dict_get (detect_pattern_based_plagiarism ascii_tables (lit ''2026-01-01T00:00:00'')
       uncited_text []) (lit ''suspicion_score'') = Some (PFloat (1 / 10))"
  using uncited_text_is_suspicious [of uncited_text ascii_tables "lit ''2026-01-01T00:00:00''" "[]"]
    uncited_text_flags
  by (auto simp add: uncited_text_words uncited_text_citations)


subsection \<open>Aggregation of the plagiarism verdict\<close>

lemma comprehensive_plagiarism_check_numbers:
  assumes "num_of (ai_probability_of ai_result) = Some a"
    and "num_of (similarity_percentage_of traditional_result) = Some s"
    and "num_of (pattern_suspicion_of
      (detect_pattern_based_plagiarism U now_pattern text reference_texts)) = Some p"
  shows "\<exists>r. comprehensive_plagiarism_check U now_pattern now ai_result traditional_result text
        reference_texts = Inr r \<and>
    is_plagiarized r = (num_gt a (Fin (7 / 10)) \<or> num_gt s (Fin 25) \<or> num_gt p (Fin (6 / 10))) \<and>
    confidence_score r =
      ((if num_gt a (Fin (7 / 10)) then 9 / 10 else if num_gt a (Fin (5 / 10)) then 7 / 10 else 3 / 10) +
       (if num_gt s (Fin 30) then 9 / 10 else if num_gt s (Fin 15) then 7 / 10 else 3 / 10) +
       (if num_gt p (Fin (6 / 10)) then 8 / 10 else if num_gt p (Fin (3 / 10)) then 6 / 10 else 4 / 10)) / 3"
  using assms by (simp add: comprehensive_plagiarism_check_def Let_def)

lemma comprehensive_plagiarism_check_returns:
  assumes "comprehensive_plagiarism_check U now_pattern now ai_result traditional_result text
      reference_texts = Inr r"
  shows "\<exists>a s p. num_of (ai_probability_of ai_result) = Some a \<and>
    num_of (similarity_percentage_of traditional_result) = Some s \<and>
    num_of (pattern_suspicion_of
      (detect_pattern_based_plagiarism U now_pattern text reference_texts)) = Some p"
  using assms
  by (auto simp add: comprehensive_plagiarism_check_def Let_def split: option.splits)



lemma example_scores:
  "ai_probability_of ai_result_08 = PFloat (8 / 10)"
  "similarity_percentage_of no_credentials = PFloat 0"
  "ai_probability_of (Inl e) = PFloat 0"
  by (simp_all add: ai_probability_of_def similarity_percentage_of_def ai_result_08_def
      no_credentials_def dict_get_default_def lit_eq_iff)


text \<open>
  C10: every confidence score that \<open>comprehensive_plagiarism_check\<close> returns is the mean
  of one value of 0.3, 0.7, 0.9, one of 0.3, 0.7, 0.9 and one of 0.4, 0.6, 0.8; it lies
  between 1/3 and 13/15 and is neither 0 nor 1.
\<close>

theorem confidence_score_range:
  assumes "comprehensive_plagiarism_check U now_pattern now ai_result traditional_result text
      reference_texts = Inr r"
  shows "(\<exists>x \<in> {3 / 10, 7 / 10, 9 / 10}. \<exists>y \<in> {3 / 10, 7 / 10, 9 / 10}.
      \<exists>z \<in> {4 / 10, 6 / 10, 8 / 10}. confidence_score r = (x + y + z) / 3) \<and>
    1 / 3 \<le> confidence_score r \<and> confidence_score r \<le> 13 / 15 \<and>
    confidence_score r \<noteq> 0 \<and> confidence_score r \<noteq> 1"
proof -
  from comprehensive_plagiarism_check_returns[OF assms] obtain a s p
    where n: "num_of (ai_probability_of ai_result) = Some a"
      "num_of (similarity_percentage_of traditional_result) = Some s"
      "num_of (pattern_suspicion_of
        (detect_pattern_based_plagiarism U now_pattern text reference_texts)) = Some p"
    by blast
  from comprehensive_plagiarism_check_numbers[OF n, of now] assms
  have c: "confidence_score r =
      ((if num_gt a (Fin (7 / 10)) then 9 / 10 else if num_gt a (Fin (5 / 10)) then 7 / 10 else 3 / 10) +
       (if num_gt s (Fin 30) then 9 / 10 else if num_gt s (Fin 15) then 7 / 10 else 3 / 10) +
       (if num_gt p (Fin (6 / 10)) then 8 / 10 else if num_gt p (Fin (3 / 10)) then 6 / 10 else 4 / 10)) / 3"
    by auto
  show ?thesis
    unfolding c by simp
qed

lemma uncited_text_suspicion:
  "pattern_suspicion_of (detect_pattern_based_plagiarism ascii_tables now uncited_text []) =
    PFloat (1 / 10)"
  by (simp add: pattern_suspicion_of_def dict_get_default_def uncited_text_def pattern_simps lit_def
      Let_def)

theorem confidence_score_range_witness:
  "confidence_score (projr (comprehensive_plagiarism_check ascii_tables (lit ''2026-01-01T00:00:00'')
      (lit ''2026-01-01T00:00:01'') (Inl (Exception (lit ''timeout''))) no_credentials
      uncited_text [])) = 1 / 3"
proof -
  let ?c = "comprehensive_plagiarism_check ascii_tables (lit ''2026-01-01T00:00:00'')
      (lit ''2026-01-01T00:00:01'') (Inl (Exception (lit ''timeout''))) no_credentials
      uncited_text []"
  from comprehensive_plagiarism_check_numbers [of "Inl (Exception (lit ''timeout''))" "Fin 0"
      no_credentials "Fin 0" ascii_tables "lit ''2026-01-01T00:00:00''" uncited_text "[]"
      "Fin (1 / 10)" "lit ''2026-01-01T00:00:01''"]
  obtain r where r: "?c = Inr r" and v: "confidence_score r = 1 / 3"
    by (auto simp add: example_scores uncited_text_suspicion)
  from confidence_score_range[OF r] have "1 / 3 \<le> confidence_score r" by blast
  with v show ?thesis
    by (simp add: r)
qed

end
